theory Spec2Isabelle
  imports Complex_Main
begin

section \<open>Python strings\<close>

text \<open>
  A Python \<open>str\<close> is modelled as a \<open>string\<close>, one \<open>char\<close> per code point, so the model
  covers the code points below 256 (ASCII and Latin-1).  The character classes and case
  mappings below are the ones of Python 3 (Unicode 14) on that range.
\<close>

definition is_space :: "char \<Rightarrow> bool" where
  \<comment> \<open>\<open>str.isspace\<close> and the regex class \<open>\s\<close>\<close>
  "is_space c = (c \<in> set [CHR 0x20, CHR 0x09, CHR 0x0A, CHR 0x0B, CHR 0x0C, CHR 0x0D,
     CHR 0x1C, CHR 0x1D, CHR 0x1E, CHR 0x1F, CHR 0x85, CHR 0xA0])"

definition is_digit :: "char \<Rightarrow> bool" where
  \<comment> \<open>the regex class \<open>\d\<close>\<close>
  "is_digit c = (c \<in> set ''0123456789'')"

definition is_AZ :: "char \<Rightarrow> bool" where
  \<comment> \<open>the regex class \<open>[A-Z]\<close>\<close>
  "is_AZ c = (c \<in> set ''ABCDEFGHIJKLMNOPQRSTUVWXYZ'')"

definition is_az :: "char \<Rightarrow> bool" where
  \<comment> \<open>the regex class \<open>[a-z]\<close>\<close>
  "is_az c = (c \<in> set ''abcdefghijklmnopqrstuvwxyz'')"

definition latin1_upper :: string where
  "latin1_upper = [CHR 0xC0, CHR 0xC1, CHR 0xC2, CHR 0xC3, CHR 0xC4, CHR 0xC5, CHR 0xC6,
     CHR 0xC7, CHR 0xC8, CHR 0xC9, CHR 0xCA, CHR 0xCB, CHR 0xCC, CHR 0xCD, CHR 0xCE, CHR 0xCF,
     CHR 0xD0, CHR 0xD1, CHR 0xD2, CHR 0xD3, CHR 0xD4, CHR 0xD5, CHR 0xD6, CHR 0xD8, CHR 0xD9,
     CHR 0xDA, CHR 0xDB, CHR 0xDC, CHR 0xDD, CHR 0xDE]"

definition latin1_lower :: string where
  "latin1_lower = [CHR 0xE0, CHR 0xE1, CHR 0xE2, CHR 0xE3, CHR 0xE4, CHR 0xE5, CHR 0xE6,
     CHR 0xE7, CHR 0xE8, CHR 0xE9, CHR 0xEA, CHR 0xEB, CHR 0xEC, CHR 0xED, CHR 0xEE, CHR 0xEF,
     CHR 0xF0, CHR 0xF1, CHR 0xF2, CHR 0xF3, CHR 0xF4, CHR 0xF5, CHR 0xF6, CHR 0xF8, CHR 0xF9,
     CHR 0xFA, CHR 0xFB, CHR 0xFC, CHR 0xFD, CHR 0xFE]"

definition latin1_word_other :: string where
  \<comment> \<open>the other alphanumeric characters above 127: feminine and masculine ordinal, superscript
     digits, micro sign, vulgar fractions, sharp s, y with diaeresis\<close>
  "latin1_word_other = [CHR 0xAA, CHR 0xB2, CHR 0xB3, CHR 0xB5, CHR 0xB9, CHR 0xBA, CHR 0xBC,
     CHR 0xBD, CHR 0xBE, CHR 0xDF, CHR 0xFF]"

definition is_word :: "char \<Rightarrow> bool" where
  \<comment> \<open>the regex class \<open>\w\<close>: \<open>str.isalnum\<close> or the underscore\<close>
  "is_word c = (if is_digit c then True else if is_AZ c then True else if is_az c then True
     else if c = CHR ''_'' then True
     else c \<in> set (latin1_upper @ latin1_lower @ latin1_word_other))"

definition lower_table :: "(char \<times> char) list" where
  "lower_table = zip (''ABCDEFGHIJKLMNOPQRSTUVWXYZ'' @ latin1_upper)
                     (''abcdefghijklmnopqrstuvwxyz'' @ latin1_lower)"

definition lower_char :: "char \<Rightarrow> char" where
  "lower_char c = (case map_of lower_table c of Some d \<Rightarrow> d | None \<Rightarrow> c)"

definition lower :: "string \<Rightarrow> string" where
  \<comment> \<open>\<open>str.lower\<close>\<close>
  "lower s = map lower_char s"

definition upper_table :: "(char \<times> string) list" where
  "upper_table = zip (''abcdefghijklmnopqrstuvwxyz'' @ latin1_lower)
                     (map (\<lambda>c. [c]) (''ABCDEFGHIJKLMNOPQRSTUVWXYZ'' @ latin1_upper))
                 @ [(CHR 0xDF, ''SS'')]"

definition upper_char :: "char \<Rightarrow> string" where
  \<comment> \<open>Sharp s becomes \<open>SS\<close>.  The upper-case forms of the micro sign and of y with diaeresis
     are U+039C and U+0178, above the range of the model: these two characters are kept.\<close>
  "upper_char c = (case map_of upper_table c of Some u \<Rightarrow> u | None \<Rightarrow> [c])"

definition upper :: "string \<Rightarrow> string" where
  \<comment> \<open>\<open>str.upper\<close>\<close>
  "upper s = concat (map upper_char s)"

definition strip :: "string \<Rightarrow> string" where
  \<comment> \<open>\<open>str.strip()\<close>\<close>
  "strip s = rev (dropWhile is_space (rev (dropWhile is_space s)))"

definition startswith :: "string \<Rightarrow> string \<Rightarrow> bool" where
  \<comment> \<open>\<open>s.startswith(p)\<close>\<close>
  "startswith s p = (take (length p) s = p)"

fun contains :: "string \<Rightarrow> string \<Rightarrow> bool" where
  \<comment> \<open>\<open>p in s\<close>\<close>
  "contains [] p = (p = [])"
| "contains (c # cs) p = (if startswith (c # cs) p then True else contains cs p)"

fun split_acc :: "string \<Rightarrow> string \<Rightarrow> string list" where
  "split_acc cur [] = (if cur = [] then [] else [rev cur])"
| "split_acc cur (c # cs) =
     (if is_space c then (if cur = [] then split_acc [] cs else rev cur # split_acc [] cs)
      else split_acc (c # cur) cs)"

definition split_ws :: "string \<Rightarrow> string list" where
  \<comment> \<open>\<open>str.split()\<close>: the maximal runs of non-whitespace characters\<close>
  "split_ws s = split_acc [] s"

fun join :: "string \<Rightarrow> string list \<Rightarrow> string" where
  \<comment> \<open>\<open>sep.join(xs)\<close>\<close>
  "join sep [] = []"
| "join sep [x] = x"
| "join sep (x # y # ys) = x @ sep @ join sep (y # ys)"

fun replace_go :: "string \<Rightarrow> string \<Rightarrow> nat \<Rightarrow> string \<Rightarrow> string" where
  \<comment> \<open>the counter is the number of characters still covered by the last occurrence\<close>
  "replace_go old new k [] = []"
| "replace_go old new (Suc k) (c # cs) = replace_go old new k cs"
| "replace_go old new 0 (c # cs) =
     (if startswith (c # cs) old then new @ replace_go old new (length old - 1) cs
      else c # replace_go old new 0 cs)"

definition replace :: "string \<Rightarrow> string \<Rightarrow> string \<Rightarrow> string" where
  \<comment> \<open>\<open>s.replace(old, new)\<close>: the occurrences from left to right, not overlapping; an empty
     \<open>old\<close> matches before every character and at the end\<close>
  "replace s old new =
     (if old = [] then new @ concat (map (\<lambda>c. c # new) s) else replace_go old new 0 s)"

definition after_colon :: "string \<Rightarrow> string" where
  \<comment> \<open>\<open>line.split(":", 1)[-1]\<close>: the text after the first colon, the whole line without one\<close>
  "after_colon s = (case dropWhile (\<lambda>c. c \<noteq> CHR '':'') s of [] \<Rightarrow> s | _ # r \<Rightarrow> r)"

definition nfkd_table :: "(char \<times> string) list" where
  \<comment> \<open>for each character above 127, the characters below 128 of its compatibility
     decomposition (Unicode Character Database); characters not listed leave none\<close>
  "nfkd_table = [(CHR 0xA0, '' ''), (CHR 0xA8, '' ''), (CHR 0xAA, ''a''), (CHR 0xAF, '' ''),
     (CHR 0xB2, ''2''), (CHR 0xB3, ''3''), (CHR 0xB4, '' ''), (CHR 0xB8, '' ''),
     (CHR 0xB9, ''1''), (CHR 0xBA, ''o''), (CHR 0xBC, ''14''), (CHR 0xBD, ''12''),
     (CHR 0xBE, ''34''), (CHR 0xC0, ''A''), (CHR 0xC1, ''A''), (CHR 0xC2, ''A''),
     (CHR 0xC3, ''A''), (CHR 0xC4, ''A''), (CHR 0xC5, ''A''), (CHR 0xC7, ''C''),
     (CHR 0xC8, ''E''), (CHR 0xC9, ''E''), (CHR 0xCA, ''E''), (CHR 0xCB, ''E''),
     (CHR 0xCC, ''I''), (CHR 0xCD, ''I''), (CHR 0xCE, ''I''), (CHR 0xCF, ''I''),
     (CHR 0xD1, ''N''), (CHR 0xD2, ''O''), (CHR 0xD3, ''O''), (CHR 0xD4, ''O''),
     (CHR 0xD5, ''O''), (CHR 0xD6, ''O''), (CHR 0xD9, ''U''), (CHR 0xDA, ''U''),
     (CHR 0xDB, ''U''), (CHR 0xDC, ''U''), (CHR 0xDD, ''Y''), (CHR 0xE0, ''a''),
     (CHR 0xE1, ''a''), (CHR 0xE2, ''a''), (CHR 0xE3, ''a''), (CHR 0xE4, ''a''),
     (CHR 0xE5, ''a''), (CHR 0xE7, ''c''), (CHR 0xE8, ''e''), (CHR 0xE9, ''e''),
     (CHR 0xEA, ''e''), (CHR 0xEB, ''e''), (CHR 0xEC, ''i''), (CHR 0xED, ''i''),
     (CHR 0xEE, ''i''), (CHR 0xEF, ''i''), (CHR 0xF1, ''n''), (CHR 0xF2, ''o''),
     (CHR 0xF3, ''o''), (CHR 0xF4, ''o''), (CHR 0xF5, ''o''), (CHR 0xF6, ''o''),
     (CHR 0xF9, ''u''), (CHR 0xFA, ''u''), (CHR 0xFB, ''u''), (CHR 0xFC, ''u''),
     (CHR 0xFD, ''y''), (CHR 0xFF, ''y'')]"

definition nfkd_ascii :: "char \<Rightarrow> string" where
  \<comment> \<open>\<open>[d for d in unicodedata.normalize("NFKD", c) if ord(d) < 128]\<close>\<close>
  "nfkd_ascii c =
     (if \<not> digit7 c then [c] else case map_of nfkd_table c of Some s \<Rightarrow> s | None \<Rightarrow> [])"

definition normalize_text :: "string \<Rightarrow> string" where
  "normalize_text text = lower (concat (map nfkd_ascii text))"

section \<open>Regular expressions\<close>

text \<open>
  The patterns of the program are values of \<open>rx\<close>, matched by a backtracking matcher in
  continuation-passing style that explores the alternatives in the order of Python's
  \<open>re\<close>: the first branch of an alternation first, a greedy repeat longest first, a lazy
  repeat shortest first.  A matcher state is the character before the position, the text
  from the position on, the position, and the spans of the groups closed so far.
\<close>

type_synonym mstate = "char option \<times> string \<times> nat \<times> (string \<times> nat \<times> nat) list"

type_synonym cont = "mstate \<Rightarrow> mstate option"

datatype rx =
    Cls "char \<Rightarrow> bool"          \<comment> \<open>one character of a class\<close>
  | Bol                           \<comment> \<open>\<open>^\<close>\<close>
  | Eol                           \<comment> \<open>\<open>$\<close>\<close>
  | Wordb                         \<comment> \<open>\<open>\b\<close>\<close>
  | NotAfter "char \<Rightarrow> bool"     \<comment> \<open>\<open>(?<!c)\<close>\<close>
  | Cat rx rx
  | Alt rx rx
  | Rep nat "nat option" rx       \<comment> \<open>\<open>r{lo,hi}\<close>, greedy\<close>
  | RepLazy nat "nat option" rx   \<comment> \<open>\<open>r{lo,hi}?\<close>, lazy\<close>
  | Grp string rx                 \<comment> \<open>a capturing group\<close>

fun rep_greedy :: "(cont \<Rightarrow> cont) \<Rightarrow> nat \<Rightarrow> nat \<Rightarrow> cont \<Rightarrow> cont" where
  "rep_greedy f lo 0 k st = (if lo = 0 then k st else None)"
| "rep_greedy f lo (Suc n) k st =
     (case f (rep_greedy f (lo - 1) n k) st of
        Some r \<Rightarrow> Some r
      | None \<Rightarrow> if lo = 0 then k st else None)"

fun rep_lazy :: "(cont \<Rightarrow> cont) \<Rightarrow> nat \<Rightarrow> nat \<Rightarrow> cont \<Rightarrow> cont" where
  "rep_lazy f lo 0 k st = (if lo = 0 then k st else None)"
| "rep_lazy f lo (Suc n) k st =
     (if lo = 0 then (case k st of Some r \<Rightarrow> Some r | None \<Rightarrow> f (rep_lazy f 0 n k) st)
      else f (rep_lazy f (lo - 1) n k) st)"

definition word_at :: "char option \<Rightarrow> bool" where
  "word_at c = (case c of None \<Rightarrow> False | Some x \<Rightarrow> is_word x)"

definition max_reps :: "nat option \<Rightarrow> mstate \<Rightarrow> nat" where
  \<comment> \<open>Every repeated sub-pattern of the program consumes at least one character, so an
     unbounded repeat makes at most as many rounds as characters are left.\<close>
  "max_reps hi st = (case hi of Some h \<Rightarrow> h | None \<Rightarrow> length (fst (snd st)))"

primrec rx_m :: "rx \<Rightarrow> cont \<Rightarrow> cont" where
  "rx_m (Cls P) k = (\<lambda>(prev, rest, pos, caps).
      case rest of [] \<Rightarrow> None
      | c # cs \<Rightarrow> if P c then k (Some c, cs, Suc pos, caps) else None)"
| "rx_m Bol k = (\<lambda>(prev, rest, pos, caps).
      if pos = 0 then k (prev, rest, pos, caps) else None)"
| "rx_m Eol k = (\<lambda>(prev, rest, pos, caps).
      if rest = [] \<or> rest = [CHR 0x0A] then k (prev, rest, pos, caps) else None)"
| "rx_m Wordb k = (\<lambda>(prev, rest, pos, caps).
      if word_at prev \<noteq> word_at (case rest of [] \<Rightarrow> None | c # _ \<Rightarrow> Some c)
      then k (prev, rest, pos, caps) else None)"
| "rx_m (NotAfter P) k = (\<lambda>(prev, rest, pos, caps).
      case prev of None \<Rightarrow> k (prev, rest, pos, caps)
      | Some c \<Rightarrow> if P c then None else k (prev, rest, pos, caps))"
| "rx_m (Cat a b) k = rx_m a (rx_m b k)"
| "rx_m (Alt a b) k = (\<lambda>st. case rx_m a k st of Some r \<Rightarrow> Some r | None \<Rightarrow> rx_m b k st)"
| "rx_m (Rep lo hi r) k = (\<lambda>st. rep_greedy (rx_m r) lo (max_reps hi st) k st)"
| "rx_m (RepLazy lo hi r) k = (\<lambda>st. rep_lazy (rx_m r) lo (max_reps hi st) k st)"
| "rx_m (Grp g r) k = (\<lambda>(prev, rest, pos, caps).
      rx_m r (\<lambda>(prev', rest', pos', caps'). k (prev', rest', pos', (g, pos, pos') # caps'))
        (prev, rest, pos, caps))"

text \<open>A match object: the subject, the span of the match and the spans of the groups.\<close>

datatype rmatch = RMatch (subject: string) (mstart: nat) (mend: nat)
  (spans: "(string \<times> nat \<times> nat) list")

definition mk_match :: "string \<Rightarrow> nat \<Rightarrow> mstate \<Rightarrow> rmatch" where
  "mk_match s b st = RMatch s b (fst (snd (snd st))) (snd (snd (snd st)))"

definition slice :: "string \<Rightarrow> nat \<Rightarrow> nat \<Rightarrow> string" where
  \<comment> \<open>\<open>s[b:e]\<close>\<close>
  "slice s b e = drop b (take e s)"

definition group0 :: "rmatch \<Rightarrow> string" where
  \<comment> \<open>\<open>m.group(0)\<close>\<close>
  "group0 mt = slice (subject mt) (mstart mt) (mend mt)"

definition group :: "rmatch \<Rightarrow> string \<Rightarrow> string" where
  \<comment> \<open>\<open>m.group(name)\<close>; every group of the program's patterns takes part in every match\<close>
  "group mt g = (case map_of (spans mt) g of
                   Some (b, e) \<Rightarrow> slice (subject mt) b e | None \<Rightarrow> [])"

definition re_match :: "rx \<Rightarrow> string \<Rightarrow> rmatch option" where
  \<comment> \<open>\<open>pattern.match(s)\<close>\<close>
  "re_match r s = map_option (mk_match s 0) (rx_m r Some (None, s, 0, []))"

definition re_fullmatch :: "rx \<Rightarrow> string \<Rightarrow> rmatch option" where
  \<comment> \<open>\<open>re.fullmatch(pattern, s)\<close>\<close>
  "re_fullmatch r s = map_option (mk_match s 0)
     (rx_m r (\<lambda>st. if fst (snd st) = [] then Some st else None) (None, s, 0, []))"

fun search_from :: "rx \<Rightarrow> string \<Rightarrow> char option \<Rightarrow> string \<Rightarrow> nat \<Rightarrow> rmatch option" where
  "search_from r s prev [] pos = map_option (mk_match s pos) (rx_m r Some (prev, [], pos, []))"
| "search_from r s prev (c # cs) pos =
     (case rx_m r Some (prev, c # cs, pos, []) of
        Some st \<Rightarrow> Some (mk_match s pos st)
      | None \<Rightarrow> search_from r s (Some c) cs (Suc pos))"

definition re_search :: "rx \<Rightarrow> string \<Rightarrow> rmatch option" where
  \<comment> \<open>\<open>pattern.search(s)\<close>: the leftmost position with a match\<close>
  "re_search r s = search_from r s None s 0"

fun sub_go :: "rx \<Rightarrow> string \<Rightarrow> char option \<Rightarrow> string \<Rightarrow> nat \<Rightarrow> nat \<Rightarrow> string" where
  \<comment> \<open>the counter is the number of characters still covered by the last match\<close>
  "sub_go r repl prev [] pos k =
     (if k = 0 \<and> rx_m r Some (prev, [], pos, []) \<noteq> None then repl else [])"
| "sub_go r repl prev (c # cs) pos (Suc k) = sub_go r repl (Some c) cs (Suc pos) k"
| "sub_go r repl prev (c # cs) pos 0 =
     (case rx_m r Some (prev, c # cs, pos, []) of
        None \<Rightarrow> c # sub_go r repl (Some c) cs (Suc pos) 0
      | Some st \<Rightarrow>
          (if fst (snd (snd st)) \<le> pos then repl @ c # sub_go r repl (Some c) cs (Suc pos) 0
           else repl @ sub_go r repl (Some c) cs (Suc pos) (fst (snd (snd st)) - pos - 1)))"

definition re_sub :: "rx \<Rightarrow> string \<Rightarrow> string \<Rightarrow> string" where
  \<comment> \<open>\<open>re.sub(pattern, repl, s)\<close>: the matches from left to right, not overlapping; an
     empty match inserts \<open>repl\<close> and the scan moves on by one character\<close>
  "re_sub r repl s = sub_go r repl None s 0 0"

subsection \<open>The patterns of the program\<close>

definition chr :: "char \<Rightarrow> rx" where
  "chr c = Cls (\<lambda>x. x = c)"

definition chr_i :: "char \<Rightarrow> rx" where
  \<comment> \<open>a letter under \<open>re.IGNORECASE\<close>\<close>
  "chr_i c = Cls (\<lambda>x. lower_char x = lower_char c)"

definition star :: "rx \<Rightarrow> rx" where
  "star r = Rep 0 None r"

definition plus1 :: "rx \<Rightarrow> rx" where
  "plus1 r = Rep 1 None r"

definition times :: "nat \<Rightarrow> nat \<Rightarrow> rx \<Rightarrow> rx" where
  "times lo hi r = Rep lo (Some hi) r"

fun cats :: "rx list \<Rightarrow> rx" where
  "cats [] = Rep 0 (Some 0) Bol"
| "cats [r] = r"
| "cats (r # rs) = Cat r (cats rs)"

definition rx_d :: rx where "rx_d = Cls is_digit"
definition rx_s :: rx where "rx_s = Cls is_space"
definition rx_w :: rx where "rx_w = Cls is_word"
definition rx_AZ :: rx where "rx_AZ = Cls is_AZ"

definition DATE_RE :: rx where
  \<comment> \<open>\<^verbatim>\<open>^\s*(\d{1,2}\.\s*\d{1,2}\.\s*\d{4})\<close>\<close>
  "DATE_RE = cats [Bol, star rx_s,
     Grp ''1'' (cats [times 1 2 rx_d, chr CHR ''.'', star rx_s,
                      times 1 2 rx_d, chr CHR ''.'', star rx_s, times 4 4 rx_d])]"

definition HEADER_DATE_RE :: rx where
  \<comment> \<open>\<^verbatim>\<open>\d{1,2}\.\s+\d{1,2}\.\s+\d{4}\<close>\<close>
  "HEADER_DATE_RE = cats [times 1 2 rx_d, chr CHR ''.'', plus1 rx_s,
                          times 1 2 rx_d, chr CHR ''.'', plus1 rx_s, times 4 4 rx_d]"

definition AMOUNT_TOKEN_RE :: rx where
  \<comment> \<open>\<^verbatim>\<open>-?\s*(?:\d{1,3}(?:[ .]\d{3})*|\d+),\d{2}\<close>\<close>
  "AMOUNT_TOKEN_RE = cats [times 0 1 (chr CHR ''-''), star rx_s,
     Alt (Cat (times 1 3 rx_d) (star (Cat (Cls (\<lambda>c. c \<in> set '' .'')) (times 3 3 rx_d))))
         (plus1 rx_d),
     chr CHR '','', times 2 2 rx_d]"

definition CURRENCY_TOKEN_RE :: rx where
  \<comment> \<open>\<^verbatim>\<open>(?:K\w|[A-Z]{3})\<close>\<close>
  "CURRENCY_TOKEN_RE = Alt (Cat (chr CHR ''K'') rx_w) (times 3 3 rx_AZ)"

definition HEADER_AMOUNT_RE :: rx where
  \<comment> \<open>\<^verbatim>\<open>(?<!\d)(?P<amount>AMOUNT_TOKEN_RE)\s+(?P<currency>CURRENCY_TOKEN_RE)\s*$\<close>\<close>
  "HEADER_AMOUNT_RE = cats [NotAfter is_digit, Grp ''amount'' AMOUNT_TOKEN_RE, plus1 rx_s,
     Grp ''currency'' CURRENCY_TOKEN_RE, star rx_s, Eol]"

definition HEADER_RE :: rx where
  \<comment> \<open>\<^verbatim>\<open>^\s*HEADER_DATE_RE.*?(?<!\d)AMOUNT_TOKEN_RE\s+CURRENCY_TOKEN_RE\s*$\<close>\<close>
  "HEADER_RE = cats [Bol, star rx_s, HEADER_DATE_RE, RepLazy 0 None (Cls (\<lambda>c. c \<noteq> CHR 0x0A)),
     NotAfter is_digit, AMOUNT_TOKEN_RE, plus1 rx_s, CURRENCY_TOKEN_RE, star rx_s, Eol]"

definition PAGE_RE :: rx where
  \<comment> \<open>\<^verbatim>\<open>^\d+/\d+$\<close>\<close>
  "PAGE_RE = cats [Bol, plus1 rx_d, chr CHR ''/'', plus1 rx_d, Eol]"

definition FX_AMOUNT :: rx where
  \<comment> \<open>\<^verbatim>\<open>\d[\d\s\.]*,\d{2}\<close>\<close>
  "FX_AMOUNT = cats [rx_d, star (Cls (\<lambda>c. is_digit c \<or> is_space c \<or> c = CHR ''.'')),
                     chr CHR '','', times 2 2 rx_d]"

definition FX_DATE_AMOUNT_RE :: rx where
  \<comment> \<open>\<^verbatim>\<open>(?P<date>\d{1,2}\.\d{1,2}\.\d{4})\s+(?P<amount>\d[\d\s\.]*,\d{2})\s+(?P<currency>[A-Z]{3})\b\<close>\<close>
  "FX_DATE_AMOUNT_RE = cats [
     Grp ''date'' (cats [times 1 2 rx_d, chr CHR ''.'', times 1 2 rx_d, chr CHR ''.'',
                         times 4 4 rx_d]),
     plus1 rx_s, Grp ''amount'' FX_AMOUNT, plus1 rx_s, Grp ''currency'' (times 3 3 rx_AZ), Wordb]"

definition FX_AMOUNT_ONLY_RE :: rx where
  \<comment> \<open>\<^verbatim>\<open>^\s*(?P<amount>\d[\d\s\.]*,\d{2})\s+(?P<currency>[A-Z]{3})\b\<close>\<close>
  "FX_AMOUNT_ONLY_RE = cats [Bol, star rx_s, Grp ''amount'' FX_AMOUNT, plus1 rx_s,
     Grp ''currency'' (times 3 3 rx_AZ), Wordb]"

definition FX_RATE_RE :: rx where
  \<comment> \<open>\<^verbatim>\<open>^\s*1\s+(?P<currency>[A-Z]{3})\s*=\s*(?P<rate>\d[\d\s]*,\d+)\s*K\w\b\<close>\<close>
  "FX_RATE_RE = cats [Bol, star rx_s, chr CHR ''1'', plus1 rx_s,
     Grp ''currency'' (times 3 3 rx_AZ), star rx_s, chr CHR ''='', star rx_s,
     Grp ''rate'' (cats [rx_d, star (Cls (\<lambda>c. is_digit c \<or> is_space c)), chr CHR '','',
                         plus1 rx_d]),
     star rx_s, chr CHR ''K'', rx_w, Wordb]"

definition CARD_MASK_RE :: rx where
  \<comment> \<open>\<^verbatim>\<open>\b\d{4}\s\d{2}\*{2}\s\*{4}\s\d{4}\b\<close>\<close>
  "CARD_MASK_RE = cats [Wordb, times 4 4 rx_d, rx_s, times 2 2 rx_d, times 2 2 (chr CHR ''*''),
     rx_s, times 4 4 (chr CHR ''*''), rx_s, times 4 4 rx_d, Wordb]"

definition CARD_MASK_X_RE :: rx where
  \<comment> \<open>\<^verbatim>\<open>\b\d{6}X{4,6}\d{4}\b\<close> with \<open>re.IGNORECASE\<close>\<close>
  "CARD_MASK_X_RE = cats [Wordb, times 6 6 rx_d, times 4 6 (chr_i CHR ''X''), times 4 4 rx_d,
     Wordb]"

definition CARD_MASK_STAR_RE :: rx where
  \<comment> \<open>\<^verbatim>\<open>\b\d{6}\*{4,6}\d{4}\b\<close>\<close>
  "CARD_MASK_STAR_RE = cats [Wordb, times 6 6 rx_d, times 4 6 (chr CHR ''*''), times 4 4 rx_d,
     Wordb]"

definition ACCOUNT_RE :: rx where
  \<comment> \<open>\<^verbatim>\<open>\b\d{1,10}-\d{1,10}/\d{4}\b\<close>\<close>
  "ACCOUNT_RE = cats [Wordb, times 1 10 rx_d, chr CHR ''-'', times 1 10 rx_d, chr CHR ''/'',
     times 4 4 rx_d, Wordb]"

definition ACCOUNT_RE2 :: rx where
  \<comment> \<open>\<^verbatim>\<open>\b\d{1,10}/\d{4}\b\<close>\<close>
  "ACCOUNT_RE2 = cats [Wordb, times 1 10 rx_d, chr CHR ''/'', times 4 4 rx_d, Wordb]"

definition word_i :: "string \<Rightarrow> rx" where
  \<comment> \<open>\<^verbatim>\<open>\bWORD\b\<close> with \<open>re.IGNORECASE\<close>\<close>
  "word_i w = cats ([Wordb] @ map chr_i w @ [Wordb])"

definition CODE_FRAGMENT_RE :: rx where
  \<comment> \<open>\<^verbatim>\<open>[A-Za-z0-9]+\<close>\<close>
  "CODE_FRAGMENT_RE = plus1 (Cls (\<lambda>c. is_AZ c \<or> is_az c \<or> is_digit c))"

definition SPACES_RE :: rx where
  \<comment> \<open>\<^verbatim>\<open>\s{2,}\<close>\<close>
  "SPACES_RE = Rep 2 None rx_s"

section \<open>Value parsers\<close>

text \<open>
  A Python \<open>float\<close> obtained from a decimal literal is modelled by the exact value of the
  literal: rounding to binary64 and overflow to infinity are not modelled.
\<close>

datatype pyfloat = Finite rat | PosInf | NegInf | NaN

fun float_neg :: "pyfloat \<Rightarrow> pyfloat" where
  "float_neg (Finite q) = Finite (- q)"
| "float_neg PosInf = NegInf"
| "float_neg NegInf = PosInf"
| "float_neg NaN = NaN"

definition digit_val :: "char \<Rightarrow> nat" where
  "digit_val c = of_char c - 48"

fun digits_go :: "nat \<Rightarrow> nat \<Rightarrow> string \<Rightarrow> nat \<times> nat \<times> string" where
  \<comment> \<open>the rest of a \<open>digitpart\<close>: digits, each optionally preceded by one underscore;
     returns the value, the number of digits and the remaining text\<close>
  "digits_go v n [] = (v, n, [])"
| "digits_go v n [c] = (if is_digit c then (10 * v + digit_val c, Suc n, []) else (v, n, [c]))"
| "digits_go v n (c # d # ds) =
     (if is_digit c then digits_go (10 * v + digit_val c) (Suc n) (d # ds)
      else if c = CHR ''_'' \<and> is_digit d then digits_go (10 * v + digit_val d) (Suc n) ds
      else (v, n, c # d # ds))"

definition digitpart :: "string \<Rightarrow> (nat \<times> nat \<times> string) option" where
  "digitpart s = (case s of [] \<Rightarrow> None
     | c # cs \<Rightarrow> if is_digit c then Some (digits_go (digit_val c) 1 cs) else None)"

definition float_mantissa :: "string \<Rightarrow> (rat \<times> string) option" where
  \<comment> \<open>\<open>[digitpart] "." digitpart | digitpart ["."]\<close>\<close>
  "float_mantissa s =
     (case digitpart s of
        Some (v1, n1, r1) \<Rightarrow>
          (case r1 of
             c # r2 \<Rightarrow>
               if c = CHR ''.'' then
                 (case digitpart r2 of
                    Some (v2, n2, r3) \<Rightarrow> Some (of_nat v1 + of_nat v2 / 10 ^ n2, r3)
                  | None \<Rightarrow> Some (of_nat v1, r2))
               else Some (of_nat v1, r1)
           | [] \<Rightarrow> Some (of_nat v1, []))
      | None \<Rightarrow>
          (case s of
             c # r2 \<Rightarrow>
               if c = CHR ''.'' then
                 (case digitpart r2 of
                    Some (v2, n2, r3) \<Rightarrow> Some (of_nat v2 / 10 ^ n2, r3)
                  | None \<Rightarrow> None)
               else None
           | [] \<Rightarrow> None))"

definition float_exponent :: "string \<Rightarrow> int option" where
  \<comment> \<open>\<open>("e" | "E") ["+" | "-"] digitpart\<close>, up to the end of the text\<close>
  "float_exponent s =
     (case s of [] \<Rightarrow> None
      | c # r \<Rightarrow>
          if c = CHR ''e'' \<or> c = CHR ''E'' then
            (let (neg, r') = (case r of [] \<Rightarrow> (False, r)
                   | d # ds \<Rightarrow> if d = CHR ''-'' then (True, ds)
                               else if d = CHR ''+'' then (False, ds) else (False, r))
             in case digitpart r' of
                  Some (v, n, []) \<Rightarrow> Some (if neg then - int v else int v)
                | _ \<Rightarrow> None)
          else None)"

definition float_abs :: "string \<Rightarrow> pyfloat option" where
  "float_abs s =
     (if lower s = ''inf'' \<or> lower s = ''infinity'' then Some PosInf
      else if lower s = ''nan'' then Some NaN
      else case float_mantissa s of
             None \<Rightarrow> None
           | Some (q, []) \<Rightarrow> Some (Finite q)
           | Some (q, r) \<Rightarrow>
               (case float_exponent r of
                  None \<Rightarrow> None
                | Some e \<Rightarrow> Some (Finite (if 0 \<le> e then q * 10 ^ nat e else q / 10 ^ nat (- e)))))"

definition py_float :: "string \<Rightarrow> pyfloat option" where
  \<comment> \<open>\<open>float(s)\<close>; \<open>None\<close> is the \<open>ValueError\<close>\<close>
  "py_float s =
     (case strip s of
        [] \<Rightarrow> None
      | c # r \<Rightarrow>
          if c = CHR ''-'' then map_option float_neg (float_abs r)
          else if c = CHR ''+'' then float_abs r
          else float_abs (c # r))"

definition cz_amount_to_float :: "string \<Rightarrow> pyfloat option" where
  "cz_amount_to_float s0 =
     (let s = strip s0;
          negative = startswith s ''-'';
          s = strip (replace s ''-'' []);
          s = replace (replace s '' '' []) [CHR 0xA0] [];
          s = (if contains s '','' then replace s ''.'' [] else s);
          s = replace s '','' ''.''
      in case py_float s of
           None \<Rightarrow> None
         | Some v \<Rightarrow> Some (if negative then float_neg v else v))"

definition normalize_currency_token :: "string option \<Rightarrow> string option" where
  "normalize_currency_token token =
     (case token of
        None \<Rightarrow> None
      | Some t \<Rightarrow>
          if t = [] then None
          else let t = upper (strip t)
               in if startswith t ''K'' then Some ''CZK'' else Some t)"

section \<open>Line classifiers\<close>

definition IGNORE_SUBSTRINGS :: "string list" where
  "IGNORE_SUBSTRINGS = [''vypis z uctu'', ''datum vypisu'', ''informace o uctu'', ''zustatky'',
     ''pocatecni zustatek'', ''konecny zustatek'', ''komercni banka, a. s.'',
     ''zapsana v obchodnim rejstriku'', ''trvaly pobyt'', ''cislo uctu'', ''iban'',
     ''hlavni mena'', ''typ uctu'', ''transakce'']"

definition CONTINUATION_TRIGGERS :: "string list" where
  "CONTINUATION_TRIGGERS = [''na'', ''pres'', ''za'', ''pro'', ''do'', ''od'', ''v'', ''ve'',
     ''s'', ''z'', ''extra'', ''vyrovnavaci'']"

definition is_label_line :: "string \<Rightarrow> bool" where
  "is_label_line line =
     (let n = normalize_text line in contains n ''datum proved'' \<and> contains n ''transakce'')"

definition is_message_line :: "string \<Rightarrow> bool" where
  "is_message_line line = startswith (normalize_text line) ''zpr''"

definition is_ignored_line :: "string \<Rightarrow> bool" where
  "is_ignored_line line =
     (if strip line = [] then True
      else if re_match PAGE_RE (strip line) \<noteq> None then True
      else (let n = normalize_text line in list_ex (contains n) IGNORE_SUBSTRINGS))"

definition looks_like_code_fragment :: "string \<Rightarrow> bool" where
  "looks_like_code_fragment token0 =
     (let token = strip token0
      in if length token < 8 then False
         else if re_fullmatch CODE_FRAGMENT_RE token = None then False
         else re_search rx_d token \<noteq> None)"

section \<open>Transaction records\<close>

text \<open>
  A record under construction is a Python \<open>dict\<close> from field names to \<open>None\<close>, a string or
  a float.  It is modelled as an association list in insertion order with distinct keys.
\<close>

datatype val = VNone | VStr string | VNum pyfloat

type_synonym pydict = "(string \<times> val) list"

datatype error = IndexError | TypeError

fun dict_set :: "pydict \<Rightarrow> string \<Rightarrow> val \<Rightarrow> pydict" where
  \<comment> \<open>\<open>d[k] = v\<close>\<close>
  "dict_set [] k v = [(k, v)]"
| "dict_set ((k', v') # d) k v = (if k' = k then (k, v) # d else (k', v') # dict_set d k v)"

definition dict_get :: "pydict \<Rightarrow> string \<Rightarrow> val" where
  \<comment> \<open>\<open>d.get(k)\<close>\<close>
  "dict_get d k = (case map_of d k of Some v \<Rightarrow> v | None \<Rightarrow> VNone)"

definition dict_update :: "pydict \<Rightarrow> pydict \<Rightarrow> pydict" where
  \<comment> \<open>\<open>d.update(e)\<close>\<close>
  "dict_update d e = foldl (\<lambda>d (k, v). dict_set d k v) d e"

definition dict_pop :: "pydict \<Rightarrow> string \<Rightarrow> pydict" where
  \<comment> \<open>\<open>d.pop(k, None)\<close>, the returned value dropped\<close>
  "dict_pop d k = filter (\<lambda>(k', v). k' \<noteq> k) d"

fun truthy :: "val \<Rightarrow> bool" where
  \<comment> \<open>the truth value of a Python object\<close>
  "truthy VNone = False"
| "truthy (VStr s) = (s \<noteq> [])"
| "truthy (VNum x) = (x \<noteq> Finite 0)"

definition opt_str :: "string option \<Rightarrow> val" where
  "opt_str x = (case x of None \<Rightarrow> VNone | Some s \<Rightarrow> VStr s)"

definition opt_num :: "pyfloat option \<Rightarrow> val" where
  "opt_num x = (case x of None \<Rightarrow> VNone | Some v \<Rightarrow> VNum v)"

definition COLUMNS :: "string list" where
  "COLUMNS = [''Datum'', ''Popis_hlavicka'', ''Protistrana'', ''Protiucet'', ''Karta'',
     ''Castka_CZK'', ''Castka_raw'', ''Datum_provedeni'', ''Kod_transakce'', ''Typ_transakce'',
     ''VS'', ''SS'', ''KS'', ''Zprava'', ''ATM_ID'', ''FX_mena'', ''FX_kurz'', ''FX_kurz_mena'',
     ''Doplnek'', ''Blok_text'']"

definition append_field :: "pydict \<Rightarrow> string \<Rightarrow> string \<Rightarrow> error + pydict" where
  "append_field tx key v =
     (if v = [] then Inr tx
      else if truthy (dict_get tx key) then
        (case dict_get tx key of
           VStr old \<Rightarrow> Inr (dict_set tx key (VStr (old @ '' | '' @ v)))
         | _ \<Rightarrow> Inl TypeError)
      else Inr (dict_set tx key (VStr v)))"

section \<open>Header line\<close>

definition first_match :: "rmatch option list \<Rightarrow> rmatch option" where
  \<comment> \<open>\<open>a or b or c\<close> on match objects: the first that is not \<open>None\<close>\<close>
  "first_match ms = (case filter (\<lambda>x. x \<noteq> None) ms of [] \<Rightarrow> None | x # _ \<Rightarrow> x)"

definition parse_header_line :: "string \<Rightarrow> pydict option" where
  "parse_header_line line =
     (case re_match DATE_RE line of
        None \<Rightarrow> None
      | Some m_date \<Rightarrow>
          (let m_amount = re_search HEADER_AMOUNT_RE line;
               amount_text = map_option (\<lambda>m. strip (group m ''amount'')) m_amount;
               amount_value = (case amount_text of None \<Rightarrow> None
                  | Some t \<Rightarrow> if t \<noteq> [] then cz_amount_to_float t else None);
               header_currency = (case m_amount of None \<Rightarrow> None
                  | Some m \<Rightarrow> normalize_currency_token (Some (group m ''currency'')));
               header_without_amount = (case m_amount of None \<Rightarrow> line
                  | Some m \<Rightarrow> take (mstart m) line);
               header_without_amount = strip (drop (mend m_date) header_without_amount);
               card_network =
                 (if re_search (word_i ''VISA'') header_without_amount \<noteq> None
                  then Some ''VISA''
                  else if re_search (word_i ''MASTERCARD'') header_without_amount \<noteq> None
                  then Some ''MASTERCARD'' else None);
               m_card = first_match [re_search CARD_MASK_RE header_without_amount,
                  re_search CARD_MASK_X_RE header_without_amount,
                  re_search CARD_MASK_STAR_RE header_without_amount];
               card = map_option (\<lambda>m. strip (group0 m)) m_card;
               header_without_amount = (case card of None \<Rightarrow> header_without_amount
                  | Some c \<Rightarrow> replace header_without_amount c '' '');
               header_without_amount = (case card_network of None \<Rightarrow> header_without_amount
                  | Some n \<Rightarrow> re_sub (word_i n) '' '' header_without_amount);
               m_acc = first_match [re_search ACCOUNT_RE header_without_amount,
                  re_search ACCOUNT_RE2 header_without_amount];
               account = map_option group0 m_acc;
               header_without_amount = (case account of None \<Rightarrow> header_without_amount
                  | Some a \<Rightarrow> replace header_without_amount a '' '');
               counterparty = strip (re_sub SPACES_RE '' '' header_without_amount);
               popis_hlavicka = (if counterparty \<noteq> [] then Some counterparty else None)
           in Some [(''Datum'', VStr (strip (group m_date ''1''))),
                    (''Popis_hlavicka'', opt_str popis_hlavicka),
                    (''Protistrana'', VStr counterparty),
                    (''Protiucet'', opt_str account),
                    (''Karta'', opt_str card),
                    (''Karta_sit'', opt_str card_network),
                    (''Castka_raw'', opt_str amount_text),
                    (''Castka_CZK'', opt_num amount_value),
                    (''Mena_hlavicka'', opt_str header_currency)]))"

section \<open>Detail lines\<close>

definition clean_symbol :: "string \<Rightarrow> string" where
  "clean_symbol v = (if v = ''-'' then [] else v)"

definition parse_detail_main_line :: "string \<Rightarrow> pydict \<times> string option" where
  "parse_detail_main_line line =
     (case re_match DATE_RE line of
        None \<Rightarrow> ([], None)
      | Some m_date \<Rightarrow>
          (let exec_date = strip (group m_date ''1'');
               rest = strip (drop (mend m_date) line);
               tokens = split_ws rest
           in if length tokens < 4 then ([(''Datum_provedeni'', VStr exec_date)], None)
              else
                (let code = hd tokens;
                     syms = drop (length tokens - 3) tokens;
                     type_tokens = take (length tokens - 4) (tl tokens);
                     ttype = strip (join '' '' type_tokens)
                 in ([(''Datum_provedeni'', VStr exec_date),
                      (''Kod_transakce'', VStr code),
                      (''Typ_transakce'', VStr ttype),
                      (''VS'', VStr (clean_symbol (syms ! 0))),
                      (''SS'', VStr (clean_symbol (syms ! 1))),
                      (''KS'', VStr (clean_symbol (syms ! 2)))], Some ttype))))"

definition val_text :: "val \<Rightarrow> error + string" where
  \<comment> \<open>a value used as a string: \<open>None\<close> and a float raise \<open>TypeError\<close>\<close>
  "val_text v = (case v of VStr s \<Rightarrow> Inr s | _ \<Rightarrow> Inl TypeError)"

definition should_append_type :: "string \<Rightarrow> val \<Rightarrow> error + bool" where
  "should_append_type line current_type =
     (if strip line = [] then Inr False
      else if contains line '':'' then Inr False
      else if contains line '' - '' then Inr False
      else if contains line ''/'' then Inr False
      else if contains line ''*'' then Inr False
      else
        (let n_line = normalize_text line
         in if startswith n_line ''popis pro me'' \<or> startswith n_line ''id souvisejici''
            then Inr False
            else
              (case val_text (if truthy current_type then current_type else VStr []) of
                 Inl e \<Rightarrow> Inl e
               | Inr t \<Rightarrow>
                   (let n_type = normalize_text t
                    in if n_type = [] then Inr False
                       else if split_ws n_type = [] then Inl IndexError
                       else if last (split_ws n_type) \<in> set CONTINUATION_TRIGGERS then Inr True
                       else if length (split_ws n_type) = 1 \<and> length (split_ws line) \<le> 2
                               \<and> re_search rx_d line = None
                            then Inr True
                       else Inr False))))"

section \<open>Foreign-exchange lines\<close>

definition set_if_unset :: "pydict \<Rightarrow> string \<Rightarrow> string \<Rightarrow> pydict" where
  \<comment> \<open>\<open>if not tx.get(k): tx[k] = v\<close>\<close>
  "set_if_unset tx k v = (if \<not> truthy (dict_get tx k) then dict_set tx k (VStr v) else tx)"

definition parse_fx_line :: "string \<Rightarrow> pydict \<Rightarrow> bool \<times> pydict" where
  "parse_fx_line line tx =
     (case re_match FX_RATE_RE line of
        Some m_rate \<Rightarrow>
          (let tx = set_if_unset tx ''FX_kurz'' (replace (group m_rate ''rate'') '' '' []);
               tx = set_if_unset tx ''FX_kurz_mena'' (group m_rate ''currency'')
           in (True, tx))
      | None \<Rightarrow>
     (case re_search FX_DATE_AMOUNT_RE line of
        Some m_fx \<Rightarrow>
          (let tx = set_if_unset tx ''FX_datum'' (group m_fx ''date'');
               tx = set_if_unset tx ''FX_castka'' (replace (group m_fx ''amount'') '' '' []);
               tx = set_if_unset tx ''FX_mena'' (group m_fx ''currency'');
               prefix = strip (take (mstart m_fx) line);
               tx = (if prefix \<noteq> [] \<and> \<not> truthy (dict_get tx ''FX_info'')
                     then dict_set tx ''FX_info'' (VStr prefix) else tx)
           in (True, tx))
      | None \<Rightarrow>
     (case re_match FX_AMOUNT_ONLY_RE line of
        Some m_amt \<Rightarrow>
          (let tx = set_if_unset tx ''FX_castka'' (replace (group m_amt ''amount'') '' '' []);
               tx = set_if_unset tx ''FX_mena'' (group m_amt ''currency'')
           in (True, tx))
      | None \<Rightarrow>
          if contains (lower line) ''kurz'' then (True, tx) else (False, tx))))"

section \<open>Other lines\<close>

definition handle_misc_line :: "string \<Rightarrow> pydict \<Rightarrow> string list \<Rightarrow> pydict \<times> string list" where
  "handle_misc_line line tx extra_lines =
     (if is_ignored_line line then (tx, extra_lines)
      else
        (let n = normalize_text line
         in if startswith n ''popis pro me''
            then (set_if_unset tx ''Popis_pro_me'' (strip (after_colon line)), extra_lines)
            else if startswith n ''id souvisejici platby''
            then (set_if_unset tx ''ID_souvisejici_platby'' (strip (after_colon line)),
                  extra_lines)
            else if startswith n ''atm id''
            then (set_if_unset tx ''ATM_ID'' (strip (after_colon line)), extra_lines)
            else (tx, extra_lines @ [strip line])))"

definition fx_or_misc :: "string \<Rightarrow> pydict \<times> string list \<Rightarrow> pydict \<times> string list" where
  \<comment> \<open>\<open>if not parse_fx_line(line, tx): handle_misc_line(line, tx, extra_lines)\<close>\<close>
  "fx_or_misc line st =
     (case st of (tx, extra_lines) \<Rightarrow>
        (case parse_fx_line line tx of
           (True, tx') \<Rightarrow> (tx', extra_lines)
         | (False, tx') \<Rightarrow> handle_misc_line line tx' extra_lines))"

section \<open>The detail body\<close>

fun detail_before :: "string list \<Rightarrow> nat \<Rightarrow> pydict \<times> string list
    \<Rightarrow> nat \<times> pydict \<times> string list" where
  \<comment> \<open>the first loop of \<open>parse_detail_lines\<close>: up to the first line that starts with a date\<close>
  "detail_before [] idx st = (idx, st)"
| "detail_before (line # ls) idx st =
     (if re_match DATE_RE line \<noteq> None then (idx, st)
      else detail_before ls (Suc idx) (fx_or_misc line st))"

definition str_concat :: "val \<Rightarrow> string \<Rightarrow> error + string" where
  \<comment> \<open>\<open>tx.get(k, "") + s\<close> where the key is present: a value that is no string raises\<close>
  "str_concat v s = (case val_text v of Inl e \<Rightarrow> Inl e | Inr t \<Rightarrow> Inr (t @ s))"

definition dict_get_default :: "pydict \<Rightarrow> string \<Rightarrow> val" where
  \<comment> \<open>\<open>d.get(k, "")\<close>\<close>
  "dict_get_default d k = (case map_of d k of Some v \<Rightarrow> v | None \<Rightarrow> VStr [])"

fun detail_after :: "string list \<Rightarrow> nat \<Rightarrow> pydict \<times> string list
    \<Rightarrow> error + nat \<times> pydict \<times> string list" where
  \<comment> \<open>the second loop of \<open>parse_detail_lines\<close>: the lines after the detail main line\<close>
  "detail_after [] idx (tx, extra_lines) = Inr (idx, tx, extra_lines)"
| "detail_after (line # ls) idx (tx, extra_lines) =
     (if is_message_line line then Inr (idx, tx, extra_lines)
      else case parse_fx_line line tx of
        (True, tx') \<Rightarrow> Inr (idx, tx', extra_lines)
      | (False, tx') \<Rightarrow>
          if re_match DATE_RE line \<noteq> None then Inr (idx, tx', extra_lines)
          else if is_ignored_line line then detail_after ls (Suc idx) (tx', extra_lines)
          else
            (let tokens = split_ws (strip line)
             in if tokens \<noteq> [] \<and> truthy (dict_get tx' ''Kod_transakce'')
                   \<and> looks_like_code_fragment (hd tokens)
                then
                  (case str_concat (dict_get_default tx' ''Kod_transakce'') (hd tokens) of
                     Inl e \<Rightarrow> Inl e
                   | Inr code \<Rightarrow>
                       (let tx1 = dict_set tx' ''Kod_transakce'' (VStr (strip code));
                            extra_type = strip (join '' '' (tl tokens))
                        in if length tokens > 1 \<and> extra_type \<noteq> []
                           then
                             (case str_concat (dict_get_default tx1 ''Typ_transakce'')
                                     ('' '' @ extra_type) of
                                Inl e \<Rightarrow> Inl e
                              | Inr ty \<Rightarrow>
                                  detail_after ls (Suc idx)
                                    (dict_set tx1 ''Typ_transakce'' (VStr (strip ty)),
                                     extra_lines))
                           else detail_after ls (Suc idx) (tx1, extra_lines)))
                else
                  (case should_append_type line (dict_get tx' ''Typ_transakce'') of
                     Inl e \<Rightarrow> Inl e
                   | Inr True \<Rightarrow>
                       (case str_concat (dict_get_default tx' ''Typ_transakce'')
                               ('' '' @ strip line) of
                          Inl e \<Rightarrow> Inl e
                        | Inr ty \<Rightarrow>
                            detail_after ls (Suc idx)
                              (dict_set tx' ''Typ_transakce'' (VStr (strip ty)), extra_lines))
                   | Inr False \<Rightarrow>
                       detail_after ls (Suc idx) (handle_misc_line line tx' extra_lines))))"

definition parse_detail_lines :: "string list \<Rightarrow> pydict
    \<Rightarrow> error + nat \<times> pydict \<times> string list" where
  \<comment> \<open>returns the index, the record as mutated, and the extra lines\<close>
  "parse_detail_lines lines tx =
     (case detail_before lines 0 (tx, []) of
        (idx, tx1, extra_lines) \<Rightarrow>
          if idx \<ge> length lines then Inr (idx, tx1, extra_lines)
          else
            (let main_line = lines ! idx;
                 detail_info = fst (parse_detail_main_line main_line);
                 tx2 = dict_update tx1 detail_info
             in detail_after (drop (Suc idx) lines) (Suc idx) (tx2, extra_lines)))"

section \<open>Blocks\<close>

fun segment_go :: "string list \<Rightarrow> string list list \<Rightarrow> string list \<Rightarrow> string list list" where
  \<comment> \<open>the segmentation loop of \<open>extract_transactions\<close>, with \<open>blocks\<close> and \<open>current\<close>\<close>
  "segment_go [] blocks current = (if current \<noteq> [] then blocks @ [current] else blocks)"
| "segment_go (line # ls) blocks current =
     (if re_match HEADER_RE line \<noteq> None
      then segment_go ls (if current \<noteq> [] then blocks @ [current] else blocks) [line]
      else segment_go ls blocks (if current \<noteq> [] then current @ [line] else current))"

definition segment :: "string list \<Rightarrow> string list list" where
  "segment lines = segment_go lines [] []"

fun find_label :: "string list \<Rightarrow> nat \<Rightarrow> nat option" where
  \<comment> \<open>\<open>next((i for i, l in enumerate(block_lines) if is_label_line(l)), None)\<close>\<close>
  "find_label [] i = None"
| "find_label (l # ls) i = (if is_label_line l then Some i else find_label ls (Suc i))"

fun tail_lines :: "string list \<Rightarrow> pydict \<times> string list \<Rightarrow> error + pydict \<times> string list" where
  \<comment> \<open>the last loop of \<open>process_block\<close>, over \<open>post_lines[idx_after:]\<close>\<close>
  "tail_lines [] st = Inr st"
| "tail_lines (line # ls) (tx, extra_lines) =
     (if is_ignored_line line then tail_lines ls (tx, extra_lines)
      else if is_message_line line then
        (let msg = (if contains line '':'' then strip (after_colon line) else strip line)
         in case append_field tx ''Zprava'' msg of
              Inl e \<Rightarrow> Inl e
            | Inr tx' \<Rightarrow> tail_lines ls (tx', extra_lines))
      else tail_lines ls (fx_or_misc line (tx, extra_lines)))"

definition fx_default :: "pydict \<Rightarrow> pydict" where
  \<comment> \<open>\<open>if not tx.get("FX_mena"): tx["FX_mena"] = tx.get("Mena_hlavicka") or "CZK"\<close>\<close>
  "fx_default tx =
     (if \<not> truthy (dict_get tx ''FX_mena'')
      then dict_set tx ''FX_mena''
             (if truthy (dict_get tx ''Mena_hlavicka'') then dict_get tx ''Mena_hlavicka''
              else VStr ''CZK'')
      else tx)"

definition finish_block :: "string list \<Rightarrow> pydict \<Rightarrow> pydict" where
  \<comment> \<open>the FX currency default, the audit text, and the header currency dropped\<close>
  "finish_block block_lines tx =
     dict_pop (dict_set (fx_default tx) ''Blok_text'' (VStr (join '' | '' block_lines)))
       ''Mena_hlavicka''"

definition walk_block :: "string list \<Rightarrow> nat \<Rightarrow> pydict \<Rightarrow> error + pydict \<times> string list" where
  \<comment> \<open>the lines before and after the label line at \<open>label_idx\<close>: the record as mutated and
     all the extra lines\<close>
  "walk_block block_lines label_idx tx =
     (let pre_lines = drop 1 (take label_idx block_lines);
          post_lines = drop (Suc label_idx) block_lines;
          (tx1, extra_lines) = foldl (\<lambda>st line. fx_or_misc line st) (tx, []) pre_lines
      in case parse_detail_lines post_lines tx1 of
           Inl e \<Rightarrow> Inl e
         | Inr (idx_after, tx2, extra2) \<Rightarrow>
             tail_lines (drop idx_after post_lines) (tx2, extra_lines @ extra2))"

definition process_block :: "string list \<Rightarrow> error + pydict option" where
  "process_block block_lines =
     (case block_lines of
        [] \<Rightarrow> Inl IndexError
      | line0 # _ \<Rightarrow>
          (case parse_header_line line0 of
             None \<Rightarrow> Inr None
           | Some header \<Rightarrow>
               (let tx = dict_update (map (\<lambda>col. (col, VNone)) COLUMNS) header
                in case find_label block_lines 0 of
                     None \<Rightarrow> Inr (Some (finish_block block_lines tx))
                   | Some label_idx \<Rightarrow>
                       (case walk_block block_lines label_idx tx of
                          Inl e \<Rightarrow> Inl e
                        | Inr (tx', extra_lines) \<Rightarrow>
                            (let tx' = (if extra_lines \<noteq> []
                                   then dict_set tx' ''Doplnek''
                                          (VStr (join '' | '' (filter (\<lambda>l. l \<noteq> []) extra_lines)))
                                   else tx')
                             in Inr (Some (finish_block block_lines tx')))))))"

fun process_blocks :: "string list list \<Rightarrow> error + pydict list" where
  \<comment> \<open>the last loop of \<open>extract_transactions\<close>; an empty dict would be skipped like \<open>None\<close>\<close>
  "process_blocks [] = Inr []"
| "process_blocks (block # bs) =
     (case process_block block of
        Inl e \<Rightarrow> Inl e
      | Inr r \<Rightarrow>
          (case process_blocks bs of
             Inl e \<Rightarrow> Inl e
           | Inr txs \<Rightarrow>
               (case r of
                  None \<Rightarrow> Inr txs
                | Some tx \<Rightarrow> if tx \<noteq> [] then Inr (tx # txs) else Inr txs)))"

definition extract_transactions :: "string list \<Rightarrow> error + pydict list" where
  \<comment> \<open>\<open>extract_transactions\<close> from the lines read from the pages\<close>
  "extract_transactions lines = process_blocks (segment lines)"

section \<open>Notions used in the statements\<close>

text \<open>
  The keys of a record; a record obtained from another by assignments to keys of a set; the
  keys each walker of a block may assign.
\<close>

definition keys :: "pydict \<Rightarrow> string set" where
  "keys d = fst ` set d"

definition upd :: "string set \<Rightarrow> pydict \<Rightarrow> pydict \<Rightarrow> bool" where
  "upd K d d' = (\<exists>kvs. keys kvs \<subseteq> K \<and> d' = dict_update d kvs)"

definition fx_keys :: "string \<Rightarrow> string set" where
  "fx_keys line =
     (if re_match FX_RATE_RE line \<noteq> None then {''FX_kurz'', ''FX_kurz_mena''}
      else if re_search FX_DATE_AMOUNT_RE line \<noteq> None
      then {''FX_datum'', ''FX_castka'', ''FX_mena'', ''FX_info''}
      else if re_match FX_AMOUNT_ONLY_RE line \<noteq> None then {''FX_castka'', ''FX_mena''}
      else {})"

definition misc_keys :: "string set" where
  "misc_keys = {''Popis_pro_me'', ''ID_souvisejici_platby'', ''ATM_ID''}"

definition detail_keys :: "string set" where
  "detail_keys = {''Datum_provedeni'', ''Kod_transakce'', ''Typ_transakce'', ''VS'', ''SS'', ''KS''}"

definition walk_keys :: "string list \<Rightarrow> string set" where
  "walk_keys ls = (\<Union>l \<in> set ls. fx_keys l) \<union> misc_keys \<union> detail_keys \<union> {''Zprava''}"

definition header_keys :: "string list" where
  "header_keys = [''Datum'', ''Popis_hlavicka'', ''Protistrana'', ''Protiucet'', ''Karta'',
     ''Karta_sit'', ''Castka_raw'', ''Castka_CZK'', ''Mena_hlavicka'']"

definition header_ok :: "pydict \<Rightarrow> bool" where
  "header_ok h = (map fst h = header_keys \<and> dict_get h ''Datum'' \<noteq> VNone)"

definition header_ok_opt :: "pydict option \<Rightarrow> bool" where
  "header_ok_opt r = (case r of None \<Rightarrow> True | Some h \<Rightarrow> header_ok h)"

definition fx_sets_currency :: "string \<Rightarrow> bool" where
  "fx_sets_currency line = (dict_get (snd (parse_fx_line line [])) ''FX_mena'' \<noteq> VNone)"


definition seed_record :: "pydict \<Rightarrow> pydict" where
  "seed_record header = dict_update (map (\<lambda>col. (col, VNone)) COLUMNS) header"

definition all_walk_keys :: "string set" where
  "all_walk_keys = {''FX_kurz'', ''FX_kurz_mena'', ''FX_datum'', ''FX_castka'', ''FX_mena'',
     ''FX_info'', ''Popis_pro_me'', ''ID_souvisejici_platby'', ''ATM_ID'', ''Datum_provedeni'',
     ''Kod_transakce'', ''Typ_transakce'', ''VS'', ''SS'', ''KS'', ''Zprava''}"


definition header_default :: "pydict \<Rightarrow> val" where
  \<comment> \<open>\<open>header.get("Mena_hlavicka") or "CZK"\<close>\<close>
  "header_default h =
     (if truthy (dict_get h ''Mena_hlavicka'') then dict_get h ''Mena_hlavicka''
      else VStr ''CZK'')"

definition parse_fx_line_spec_order :: "string \<Rightarrow> pydict \<Rightarrow> bool \<times> pydict" where
  \<comment> \<open>The FX parser with the three shapes tried in the order of the specification: date,
     amount and currency; amount and currency; the rate.\<close>
  "parse_fx_line_spec_order line tx =
     (case re_search FX_DATE_AMOUNT_RE line of
        Some m_fx \<Rightarrow>
          (let tx = set_if_unset tx ''FX_datum'' (group m_fx ''date'');
               tx = set_if_unset tx ''FX_castka'' (replace (group m_fx ''amount'') '' '' []);
               tx = set_if_unset tx ''FX_mena'' (group m_fx ''currency'');
               prefix = strip (take (mstart m_fx) line);
               tx = (if prefix \<noteq> [] \<and> \<not> truthy (dict_get tx ''FX_info'')
                     then dict_set tx ''FX_info'' (VStr prefix) else tx)
           in (True, tx))
      | None \<Rightarrow>
     (case re_match FX_AMOUNT_ONLY_RE line of
        Some m_amt \<Rightarrow>
          (let tx = set_if_unset tx ''FX_castka'' (replace (group m_amt ''amount'') '' '' []);
               tx = set_if_unset tx ''FX_mena'' (group m_amt ''currency'')
           in (True, tx))
      | None \<Rightarrow>
     (case re_match FX_RATE_RE line of
        Some m_rate \<Rightarrow>
          (let tx = set_if_unset tx ''FX_kurz'' (replace (group m_rate ''rate'') '' '' []);
               tx = set_if_unset tx ''FX_kurz_mena'' (group m_rate ''currency'')
           in (True, tx))
      | None \<Rightarrow>
          if contains (lower line) ''kurz'' then (True, tx) else (False, tx))))"

definition is_set :: "pydict \<Rightarrow> string \<Rightarrow> string \<Rightarrow> bool" where
  "is_set d k v = (truthy (dict_get d k) \<or> map_of d k = Some (VStr v))"

definition parse_amount_spec :: "string \<Rightarrow> pyfloat option" where
  \<comment> \<open>The amount parser in the words of the specification: a leading minus sign is stripped
     and remembered, spaces and no-break spaces are stripped, dots are removed when a comma
     is present, the comma becomes a decimal point, the text is parsed and the sign
     reapplied.\<close>
  "parse_amount_spec text =
     (let negative = (text \<noteq> [] \<and> hd text = CHR ''-'');
          s = (if negative then tl text else text);
          s = filter (\<lambda>c. c \<noteq> CHR '' '' \<and> c \<noteq> CHR 0xA0) s;
          s = (if CHR '','' \<in> set s then filter (\<lambda>c. c \<noteq> CHR ''.'') s else s);
          s = map (\<lambda>c. if c = CHR '','' then CHR ''.'' else c) s
      in map_option (\<lambda>v. if negative then float_neg v else v) (py_float s))"

definition parse_amount_all_minus :: "string \<Rightarrow> pyfloat option" where
  \<comment> \<open>The same with the first step as the program has it: surrounding whitespace is
     stripped, the sign is that of a leading minus, and every minus sign is removed.\<close>
  "parse_amount_all_minus text =
     (let s = strip text;
          negative = (s \<noteq> [] \<and> hd s = CHR ''-'');
          s = strip (filter (\<lambda>c. c \<noteq> CHR ''-'') s);
          s = filter (\<lambda>c. c \<noteq> CHR '' '' \<and> c \<noteq> CHR 0xA0) s;
          s = (if CHR '','' \<in> set s then filter (\<lambda>c. c \<noteq> CHR ''.'') s else s);
          s = map (\<lambda>c. if c = CHR '','' then CHR ''.'' else c) s
      in map_option (\<lambda>v. if negative then float_neg v else v) (py_float s))"

section \<open>Segmentation\<close>

lemma segment_go_concat:
  "concat (segment_go ls blocks current) =
     concat blocks @ current @
       (if current \<noteq> [] then ls else dropWhile (\<lambda>l. re_match HEADER_RE l = None) ls)"
proof (induction ls arbitrary: blocks current)
  case Nil
  then show ?case by simp
next
  case (Cons l ls)
  show ?case
  proof (cases "re_match HEADER_RE l = None")
    case True
    then show ?thesis by (simp add: Cons.IH)
  next
    case False
    then obtain y where "re_match HEADER_RE l = Some y" by auto
    then show ?thesis by (simp add: Cons.IH)
  qed
qed

text \<open>
  C3: the lines before the first header-shaped line (the discarded prefix), followed by the
  lines of all blocks in order, are the input lines: every line is in exactly one block or
  in the discarded prefix.
\<close>

theorem segment_coverage:
  "takeWhile (\<lambda>l. re_match HEADER_RE l = None) lines @ concat (segment lines) = lines"
  by (simp add: segment_def segment_go_concat)

section \<open>Currency normalization\<close>

lemma upper_char_cases:
  "upper_char c = [c] \<or> (c, upper_char c) \<in> set upper_table"
  unfolding upper_char_def by (auto split: option.splits dest: map_of_SomeD)

lemma upper_table_all:
  "list_all (\<lambda>(c, u). upper u = u \<and> u \<noteq> [] \<and> list_all (\<lambda>d. \<not> is_space d) u) upper_table"
  by code_simp

lemma upper_table_idem:
  "(c, u) \<in> set upper_table \<Longrightarrow> upper u = u \<and> u \<noteq> [] \<and> (\<forall>d \<in> set u. \<not> is_space d)"
  using upper_table_all unfolding list_all_iff by fastforce

lemma upper_append: "upper (s @ t) = upper s @ upper t"
  by (simp add: upper_def)

lemma upper_char_idem: "upper (upper_char c) = upper_char c"
proof -
  from upper_char_cases[of c] show ?thesis
  proof
    assume h: "upper_char c = [c]"
    then show ?thesis by (simp add: upper_def)
  next
    assume "(c, upper_char c) \<in> set upper_table"
    then show ?thesis using upper_table_idem by blast
  qed
qed

lemma upper_idem: "upper (upper s) = upper s"
proof (induction s)
  case Nil
  then show ?case by (simp add: upper_def)
next
  case (Cons c s)
  have "upper (c # s) = upper_char c @ upper s" by (simp add: upper_def)
  then show ?case using Cons by (simp add: upper_append upper_char_idem)
qed

lemma upper_char_nonspace:
  assumes "\<not> is_space c"
  shows "upper_char c \<noteq> [] \<and> (\<forall>d \<in> set (upper_char c). \<not> is_space d)"
proof -
  from upper_char_cases[of c] show ?thesis
  proof
    assume "upper_char c = [c]"
    then show ?thesis using assms by simp
  next
    assume "(c, upper_char c) \<in> set upper_table"
    then show ?thesis using upper_table_idem by blast
  qed
qed

lemma strip_eq_take:
  "\<exists>n. strip s = take n (dropWhile is_space s)"
  unfolding strip_def
  by (metis dropWhile_eq_drop rev_drop rev_rev_ident length_rev)

lemma strip_ends:
  assumes "strip s \<noteq> []"
  shows "\<not> is_space (hd (strip s)) \<and> \<not> is_space (last (strip s))"
proof -
  let ?t = "dropWhile is_space s"
  obtain n where n: "strip s = take n ?t" using strip_eq_take by blast
  with assms have "n > 0" "?t \<noteq> []" by auto
  then have "hd (strip s) = hd ?t" using n by (simp add: hd_take)
  moreover have "\<not> is_space (hd ?t)" using \<open>?t \<noteq> []\<close> by (simp add: hd_dropWhile)
  moreover have "last (strip s) = hd (dropWhile is_space (rev ?t))"
    using assms unfolding strip_def by (simp add: last_rev)
  moreover have "dropWhile is_space (rev ?t) \<noteq> []" using assms unfolding strip_def by simp
  ultimately show ?thesis by (simp add: hd_dropWhile)
qed

lemma strip_fixed:
  assumes "s \<noteq> []" "\<not> is_space (hd s)" "\<not> is_space (last s)"
  shows "strip s = s"
proof -
  have "dropWhile is_space s = s" using assms by (cases s) auto
  moreover obtain bs b where s': "s = bs @ [b]" using assms(1) by (metis rev_exhaust)
  then have "dropWhile is_space (rev s) = rev s" using assms(3) by simp
  ultimately show ?thesis by (simp add: strip_def)
qed

lemma upper_ends:
  assumes "s \<noteq> []" "\<not> is_space (hd s)" "\<not> is_space (last s)"
  shows "upper s \<noteq> [] \<and> \<not> is_space (hd (upper s)) \<and> \<not> is_space (last (upper s))"
proof -
  obtain c cs where s: "s = c # cs" using assms(1) by (cases s) auto
  obtain bs b where s': "s = bs @ [b]" using assms(1) by (metis rev_exhaust)
  have c: "upper_char c \<noteq> []" "\<forall>d \<in> set (upper_char c). \<not> is_space d"
    using upper_char_nonspace assms(2) s by auto
  have b: "upper_char b \<noteq> []" "\<forall>d \<in> set (upper_char b). \<not> is_space d"
    using upper_char_nonspace assms(3) s' by auto
  have u1: "upper s = upper_char c @ upper cs" by (simp add: s upper_def)
  have u2: "upper s = upper bs @ upper_char b" by (simp add: s' upper_def)
  have "hd (upper s) \<in> set (upper_char c)" using u1 c(1) by simp
  moreover have "last (upper s) \<in> set (upper_char b)" using u2 b(1) by simp
  ultimately show ?thesis using c b u1 by auto
qed

lemma normalize_currency_idem_part:
  assumes h: "\<forall>t. x = Some t \<longrightarrow> t = [] \<or> strip t \<noteq> []"
  shows "normalize_currency_token (normalize_currency_token x) = normalize_currency_token x"
proof (cases x)
  case None
  then show ?thesis by (simp add: normalize_currency_token_def)
next
  case (Some t)
  show ?thesis
  proof (cases "t = []")
    case True
    then show ?thesis using Some by (simp add: normalize_currency_token_def)
  next
    case False
    then have ne: "strip t \<noteq> []" using h Some by auto
    define u where "u = upper (strip t)"
    have ends: "u \<noteq> []" "\<not> is_space (hd u)" "\<not> is_space (last u)"
      using upper_ends[OF ne] strip_ends[OF ne] by (simp_all add: u_def)
    have "strip u = u" using ends by (rule strip_fixed)
    moreover have "upper u = u" by (simp add: u_def upper_idem)
    ultimately have fixd: "upper (strip u) = u" by simp
    have czk: "normalize_currency_token (Some ''CZK'') = Some ''CZK''" by code_simp
    have step: "\<And>v. v \<noteq> [] \<Longrightarrow> normalize_currency_token (Some v) =
        (if startswith (upper (strip v)) ''K'' then Some ''CZK'' else Some (upper (strip v)))"
      by (simp add: normalize_currency_token_def Let_def)
    have x1: "normalize_currency_token x = (if startswith u ''K'' then Some ''CZK'' else Some u)"
      using step[OF False] Some by (simp add: u_def)
    show ?thesis
    proof (cases "startswith u ''K''")
      case True
      then show ?thesis using x1 czk by simp
    next
      case no: False
      then have "normalize_currency_token x = Some u" using x1 by simp
      moreover have "normalize_currency_token (Some u) = Some u"
        using step[OF ends(1)] fixd no by simp
      ultimately show ?thesis by simp
    qed
  qed
qed

lemma normalize_currency_K:
  assumes k: "startswith t ''K'' \<or> startswith t ''k''"
  shows "normalize_currency_token (Some t) = Some ''CZK''"
proof -
  from k obtain c cs where t: "t = c # cs" and ck: "c = CHR ''K'' \<or> c = CHR ''k''"
    by (cases t) (auto simp: startswith_def)
  have sp: "\<not> is_space c" using ck by (auto simp: is_space_def)
  then have "dropWhile is_space t = t" using t by simp
  then obtain n where n: "strip t = take n t" using strip_eq_take[of t] by auto
  have "strip t \<noteq> []" using t sp unfolding strip_def by (auto simp: dropWhile_eq_Nil_conv)
  then have "n > 0" using n by auto
  then obtain r where r: "strip t = c # r" using n t by (cases n) auto
  have kk: "upper_char CHR ''K'' = ''K''" "upper_char CHR ''k'' = ''K''" by code_simp+
  have "upper_char c = ''K''" using ck kk by auto
  then have "startswith (upper (strip t)) ''K''" by (simp add: r upper_def startswith_def)
  then show "normalize_currency_token (Some t) = Some ''CZK''"
    using t by (simp add: normalize_currency_token_def)
qed

text \<open>
  C7, as stated: normalizing twice is the same as normalizing once, for every token.  It fails
  for a token of whitespace only: the first pass strips it to the empty string, which the
  second pass maps to \<open>None\<close>.
\<close>

theorem normalize_currency_not_idempotent:
  "normalize_currency_token (normalize_currency_token (Some '' '')) \<noteq>
   normalize_currency_token (Some '' '')"
  by code_simp

text \<open>
  C7, amended: normalizing twice is the same as normalizing once for every input that is
  \<open>None\<close>, empty, or not made of whitespace only; and every token that starts with \<open>K\<close>
  or \<open>k\<close> maps to \<open>CZK\<close>.
\<close>

theorem normalize_currency_idempotent:
  "((\<forall>t. x = Some t \<longrightarrow> t = [] \<or> strip t \<noteq> []) \<longrightarrow>
      normalize_currency_token (normalize_currency_token x) = normalize_currency_token x) \<and>
   (startswith t ''K'' \<or> startswith t ''k'' \<longrightarrow>
      normalize_currency_token (Some t) = Some ''CZK'')"
  using normalize_currency_idem_part[of x] normalize_currency_K[of t] by blast

theorem normalize_currency_idempotent_witness:
  "normalize_currency_token (normalize_currency_token (Some ''usd'')) =
     normalize_currency_token (Some ''usd'') \<and>
   normalize_currency_token (Some ''Kc'') = Some ''CZK''"
proof -
  have s: "strip ''usd'' \<noteq> []" by code_simp
  have h1: "\<forall>t. Some ''usd'' = Some t \<longrightarrow> t = [] \<or> strip t \<noteq> []" using s by simp
  have h2: "startswith ''Kc'' ''K'' \<or> startswith ''Kc'' ''k''" by (simp add: startswith_def)
  from normalize_currency_idempotent[of "Some ''usd''" "''Kc''"] h1 h2 show ?thesis by blast
qed

lemma map_of_dict_set: "map_of (dict_set d k v) = (map_of d)(k \<mapsto> v)"
  by (induction d) (auto simp: fun_eq_iff)

lemma dict_get_set: "dict_get (dict_set d k v) k' = (if k' = k then v else dict_get d k')"
  by (simp add: dict_get_def map_of_dict_set)


lemma keys_Nil: "keys [] = {}"
  by (simp add: keys_def)

lemma keys_Cons: "keys ((k, v) # d) = insert k (keys d)"
  by (simp add: keys_def)



lemma dict_get_update:
  "k \<notin> keys e \<Longrightarrow> dict_get (dict_update d e) k = dict_get d k"
  unfolding dict_update_def
proof (induction e arbitrary: d)
  case Nil
  then show ?case by simp
next
  case (Cons a e)
  obtain k' v where a: "a = (k', v)" by (cases a)
  have "k \<noteq> k'" "k \<notin> keys e" using Cons.prems by (simp_all add: a keys_Cons)
  then show ?case using Cons.IH[of "dict_set d k' v"] by (simp add: a dict_get_set)
qed


lemma dict_get_pop: "k' \<noteq> k \<Longrightarrow> dict_get (dict_pop d k) k' = dict_get d k'"
  unfolding dict_get_def dict_pop_def
  by (induction d) auto

lemma upd_refl: "upd K d d"
  unfolding upd_def by (rule exI[of _ "[]"]) (simp add: dict_update_def keys_Nil)

lemma upd_set: "k \<in> K \<Longrightarrow> upd K d (dict_set d k v)"
  unfolding upd_def by (rule exI[of _ "[(k, v)]"]) (simp add: dict_update_def keys_Cons keys_Nil)

lemma upd_trans: "upd K a b \<Longrightarrow> upd K b c \<Longrightarrow> upd K a c"
proof -
  assume "upd K a b" and "upd K b c"
  then obtain k1 k2 where 1: "keys k1 \<subseteq> K" "b = dict_update a k1"
    and 2: "keys k2 \<subseteq> K" "c = dict_update b k2" unfolding upd_def by blast
  have "c = dict_update a (k1 @ k2)" using 1 2 by (simp add: dict_update_def)
  moreover have "keys (k1 @ k2) \<subseteq> K" using 1 2 by (simp add: keys_def image_Un)
  ultimately show "upd K a c" unfolding upd_def by blast
qed

lemma upd_mono: "upd K d d' \<Longrightarrow> K \<subseteq> K' \<Longrightarrow> upd K' d d'"
  unfolding upd_def by blast

lemma upd_update: "keys e \<subseteq> K \<Longrightarrow> upd K d (dict_update d e)"
  unfolding upd_def by blast


lemma upd_get: "upd K d d' \<Longrightarrow> k \<notin> K \<Longrightarrow> dict_get d' k = dict_get d k"
proof -
  assume "upd K d d'" and k: "k \<notin> K"
  then obtain kvs where 1: "keys kvs \<subseteq> K" "d' = dict_update d kvs" unfolding upd_def by blast
  then have "k \<notin> keys kvs" using k by blast
  then show ?thesis using 1 by (simp add: dict_get_update)
qed

lemma set_if_unset_upd: "k \<in> K \<Longrightarrow> upd K tx (set_if_unset tx k v)"
  by (simp add: set_if_unset_def upd_refl upd_set)

lemma parse_fx_line_upd:
  assumes "fx_keys line \<subseteq> K"
  shows "upd K tx (snd (parse_fx_line line tx))"
proof (cases "re_match FX_RATE_RE line")
  case (Some m)
  then have k: "''FX_kurz'' \<in> K" "''FX_kurz_mena'' \<in> K" using assms by (auto simp: fx_keys_def)
  show ?thesis using Some
    by (simp add: parse_fx_line_def Let_def upd_trans[OF set_if_unset_upd[OF k(1)] set_if_unset_upd[OF k(2)]])
next
  case rate: None
  show ?thesis
  proof (cases "re_search FX_DATE_AMOUNT_RE line")
    case (Some m)
    then have k: "''FX_datum'' \<in> K" "''FX_castka'' \<in> K" "''FX_mena'' \<in> K" "''FX_info'' \<in> K"
      using assms rate by (auto simp: fx_keys_def)
    have 3: "\<And>a b c. upd K tx (set_if_unset (set_if_unset (set_if_unset tx ''FX_datum'' a) ''FX_castka'' b) ''FX_mena'' c)"
      by (rule upd_trans[OF upd_trans[OF set_if_unset_upd[OF k(1)] set_if_unset_upd[OF k(2)]] set_if_unset_upd[OF k(3)]])
    show ?thesis using Some rate 3 upd_trans[OF 3 upd_set[OF k(4)]]
      by (simp add: parse_fx_line_def Let_def)
  next
    case da: None
    show ?thesis
    proof (cases "re_match FX_AMOUNT_ONLY_RE line")
      case (Some m)
      then have k: "''FX_castka'' \<in> K" "''FX_mena'' \<in> K"
        using assms rate da by (auto simp: fx_keys_def)
      show ?thesis using Some rate da
        by (simp add: parse_fx_line_def Let_def upd_trans[OF set_if_unset_upd[OF k(1)] set_if_unset_upd[OF k(2)]])
    next
      case None
      then show ?thesis using rate da by (simp add: parse_fx_line_def upd_refl)
    qed
  qed
qed

lemma handle_misc_line_upd:
  assumes "misc_keys \<subseteq> K"
  shows "upd K tx (fst (handle_misc_line line tx ex))"
proof -
  have k: "''Popis_pro_me'' \<in> K" "''ID_souvisejici_platby'' \<in> K" "''ATM_ID'' \<in> K"
    using assms by (auto simp: misc_keys_def)
  show ?thesis
    by (simp add: handle_misc_line_def Let_def upd_refl set_if_unset_upd[OF k(1)]
        set_if_unset_upd[OF k(2)] set_if_unset_upd[OF k(3)])
qed

lemma fx_or_misc_upd:
  "fx_keys line \<subseteq> K \<Longrightarrow> misc_keys \<subseteq> K \<Longrightarrow> upd K tx (fst (fx_or_misc line (tx, ex)))"
proof -
  assume a: "fx_keys line \<subseteq> K" "misc_keys \<subseteq> K"
  obtain hit tx1 where p: "parse_fx_line line tx = (hit, tx1)" by (cases "parse_fx_line line tx")
  have 1: "upd K tx tx1" using parse_fx_line_upd[OF a(1), of tx] p by simp
  show ?thesis
  proof (cases hit)
    case True
    then show ?thesis using p 1 by (simp add: fx_or_misc_def)
  next
    case False
    then show ?thesis using p upd_trans[OF 1 handle_misc_line_upd[OF a(2), of tx1 line ex]]
      by (simp add: fx_or_misc_def)
  qed
qed

lemma detail_before_upd:
  assumes "\<forall>l \<in> set ls. fx_keys l \<subseteq> K" "misc_keys \<subseteq> K"
  shows "detail_before ls idx (tx, ex) = (idx', tx', ex') \<Longrightarrow> upd K tx tx'"
  using assms
proof (induction ls arbitrary: idx tx ex)
  case Nil
  then show ?case by (simp add: upd_refl)
next
  case (Cons line ls)
  obtain tx1 ex1 where f: "fx_or_misc line (tx, ex) = (tx1, ex1)" by (cases "fx_or_misc line (tx, ex)")
  have u1: "upd K tx tx1" using fx_or_misc_upd[of line K tx ex] Cons.prems f by simp
  show ?case
  proof (cases "re_match DATE_RE line = None")
    case True
    then have "detail_before ls (Suc idx) (tx1, ex1) = (idx', tx', ex')" using Cons.prems(1) f by simp
    then have "upd K tx1 tx'" using Cons.IH Cons.prems by simp
    then show ?thesis using u1 upd_trans by blast
  next
    case False
    then have "tx' = tx" using Cons.prems(1) by auto
    then show ?thesis by (simp add: upd_refl)
  qed
qed

lemma detail_after_upd:
  assumes "\<forall>l \<in> set ls. fx_keys l \<subseteq> K" "misc_keys \<subseteq> K" "detail_keys \<subseteq> K"
  shows "detail_after ls idx (tx, ex) = Inr (idx', tx', ex') \<Longrightarrow> upd K tx tx'"
  using assms
proof (induction ls arbitrary: idx tx ex)
  case Nil
  then show ?case by (simp add: upd_refl)
next
  case (Cons line ls)
  obtain hit tx1 where p: "parse_fx_line line tx = (hit, tx1)" by (cases "parse_fx_line line tx")
  have kk: "''Kod_transakce'' \<in> K" "''Typ_transakce'' \<in> K"
    using Cons.prems(4) by (auto simp: detail_keys_def)
  have u1: "upd K tx tx1" using parse_fx_line_upd[of line K tx] Cons.prems(2) p by simp
  have ih: "\<And>i t e. upd K tx t \<Longrightarrow> detail_after ls i (t, e) = Inr (idx', tx', ex') \<Longrightarrow> upd K tx tx'"
    using Cons.IH Cons.prems(2,3,4) upd_trans by (metis list.set_intros(2))
  have s1: "\<And>k v. k \<in> K \<Longrightarrow> upd K tx (dict_set tx1 k v)"
    using u1 upd_set upd_trans by blast
  have s2: "\<And>k v k' v'. k \<in> K \<Longrightarrow> k' \<in> K \<Longrightarrow> upd K tx (dict_set (dict_set tx1 k v) k' v')"
    using s1 upd_set upd_trans by blast
  have s3: "upd K tx (fst (handle_misc_line line tx1 ex))"
    using u1 handle_misc_line_upd[OF Cons.prems(3)] upd_trans by blast
  obtain tx2 ex2 where hm: "handle_misc_line line tx1 ex = (tx2, ex2)" by (cases "handle_misc_line line tx1 ex")
  have s3': "upd K tx tx2" using s3 hm by simp
  from Cons.prems(1) show ?case
    apply (simp add: p hm Let_def upd_refl split: if_splits sum.splits bool.splits)
    using u1 ih s1 s2 s3' kk upd_refl apply blast+
    done
qed

lemma header_ok_Let: "(\<And>x. header_ok_opt (f x)) \<Longrightarrow> header_ok_opt (Let a f)"
  by simp

lemma parse_header_line_ok: "header_ok_opt (parse_header_line line)"
proof (cases "re_match DATE_RE line")
  case None
  then show ?thesis by (simp add: parse_header_line_def header_ok_opt_def)
next
  case (Some m)
  show ?thesis
    unfolding parse_header_line_def Some option.case
    apply (intro header_ok_Let)
    apply (simp add: header_ok_opt_def header_ok_def header_keys_def dict_get_def)
    done
qed

lemma parse_header_line_shape: "parse_header_line line = Some h \<Longrightarrow> header_ok h"
  using parse_header_line_ok[of line] by (simp add: header_ok_opt_def)

lemma parse_detail_main_line_keys: "keys (fst (parse_detail_main_line line)) \<subseteq> detail_keys"
  unfolding parse_detail_main_line_def detail_keys_def
  by (simp add: Let_def keys_Cons keys_Nil split: option.splits)

lemma parse_detail_lines_upd:
  assumes "\<forall>l \<in> set ls. fx_keys l \<subseteq> K" "misc_keys \<subseteq> K" "detail_keys \<subseteq> K"
    and r: "parse_detail_lines ls tx = Inr (idx', tx', ex')"
  shows "upd K tx tx'"
proof -
  obtain idx tx1 ex1 where b: "detail_before ls 0 (tx, []) = (idx, tx1, ex1)"
    by (cases "detail_before ls 0 (tx, [])")
  have u1: "upd K tx tx1" using detail_before_upd[OF assms(1,2) b] .
  show ?thesis
  proof (cases "idx \<ge> length ls")
    case True
    then show ?thesis using r b u1 by (simp add: parse_detail_lines_def)
  next
    case False
    let ?tx2 = "dict_update tx1 (fst (parse_detail_main_line (ls ! idx)))"
    have a: "detail_after (drop (Suc idx) ls) (Suc idx) (?tx2, ex1) = Inr (idx', tx', ex')"
      using r b False by (simp add: parse_detail_lines_def Let_def)
    have "\<forall>l \<in> set (drop (Suc idx) ls). fx_keys l \<subseteq> K"
      using assms(1) by (meson in_set_dropD)
    then have u3: "upd K ?tx2 tx'" using detail_after_upd[OF _ assms(2,3) a] by simp
    have u2: "upd K tx1 ?tx2"
      by (rule upd_update) (use parse_detail_main_line_keys assms(3) in blast)
    show ?thesis using u1 u2 u3 upd_trans by blast
  qed
qed

lemma append_field_upd: "append_field tx k v = Inr tx' \<Longrightarrow> k \<in> K \<Longrightarrow> upd K tx tx'"
  unfolding append_field_def
  by (auto simp: upd_refl upd_set split: if_splits val.splits)

lemma tail_lines_upd:
  assumes "\<forall>l \<in> set ls. fx_keys l \<subseteq> K" "misc_keys \<subseteq> K" "''Zprava'' \<in> K"
  shows "tail_lines ls (tx, ex) = Inr (tx', ex') \<Longrightarrow> upd K tx tx'"
  using assms
proof (induction ls arbitrary: tx ex)
  case Nil
  then show ?case by (simp add: upd_refl)
next
  case (Cons line ls)
  obtain tx1 ex1 where f: "fx_or_misc line (tx, ex) = (tx1, ex1)" by (cases "fx_or_misc line (tx, ex)")
  have u1: "upd K tx tx1" using fx_or_misc_upd[of line K tx ex] Cons.prems f by simp
  have ih: "\<And>t e. upd K tx t \<Longrightarrow> tail_lines ls (t, e) = Inr (tx', ex') \<Longrightarrow> upd K tx tx'"
  proof -
    fix i t e assume a: "upd K tx t" "tail_lines ls (t, e) = Inr (tx', ex')"
    have "\<forall>l \<in> set ls. fx_keys l \<subseteq> K" using Cons.prems(2) by simp
    then have "upd K t tx'" using Cons.IH[OF a(2) _ Cons.prems(3,4)] by simp
    then show "upd K tx tx'" using a(1) upd_trans by blast
  qed
  have af: "\<And>v t. append_field tx ''Zprava'' v = Inr t \<Longrightarrow> upd K tx t"
    using append_field_upd Cons.prems(4) by blast
  from Cons.prems(1) show ?case
    apply (simp add: f Let_def split: if_splits sum.splits)
    using u1 ih af upd_refl apply blast+
    done
qed

lemma foldl_fx_or_misc_upd:
  assumes "\<forall>l \<in> set ls. fx_keys l \<subseteq> K" "misc_keys \<subseteq> K"
  shows "upd K tx (fst (foldl (\<lambda>st line. fx_or_misc line st) (tx, ex) ls))"
  using assms
proof (induction ls arbitrary: tx ex)
  case Nil
  then show ?case by (simp add: upd_refl)
next
  case (Cons line ls)
  obtain tx1 ex1 where f: "fx_or_misc line (tx, ex) = (tx1, ex1)" by (cases "fx_or_misc line (tx, ex)")
  have u1: "upd K tx tx1" using fx_or_misc_upd[of line K tx ex] Cons.prems f by simp
  have "upd K tx1 (fst (foldl (\<lambda>st line. fx_or_misc line st) (tx1, ex1) ls))"
    using Cons.IH Cons.prems by simp
  then show ?case using u1 f upd_trans by fastforce
qed

lemma walk_keys_sub:
  "set ls \<subseteq> set ls' \<Longrightarrow> l \<in> set ls \<Longrightarrow> fx_keys l \<subseteq> walk_keys ls'"
  unfolding walk_keys_def by blast

lemma set_pre_lines: "l \<in> set (drop 1 (take i b)) \<Longrightarrow> l \<in> set (tl b)"
  by (cases b; cases i) (auto dest: in_set_takeD)

lemma set_post_lines: "l \<in> set (drop (Suc i) b) \<Longrightarrow> l \<in> set (tl b)"
  by (cases b) (auto dest: in_set_dropD)

lemma walk_block_upd:
  assumes r: "walk_block b i tx = Inr (tx', ex')"
    and K: "\<forall>l \<in> set (tl b). fx_keys l \<subseteq> K" "misc_keys \<subseteq> K" "detail_keys \<subseteq> K" "''Zprava'' \<in> K"
  shows "upd K tx tx'"
proof -
  let ?pre = "drop 1 (take i b)" and ?post = "drop (Suc i) b"
  have pre: "\<forall>l \<in> set ?pre. fx_keys l \<subseteq> K"
  proof
    fix l assume "l \<in> set ?pre"
    then have "l \<in> set (tl b)" by (rule set_pre_lines)
    with K(1) show "fx_keys l \<subseteq> K" by (rule bspec)
  qed
  have post: "\<forall>l \<in> set ?post. fx_keys l \<subseteq> K"
  proof
    fix l assume "l \<in> set ?post"
    then have "l \<in> set (tl b)" by (rule set_post_lines)
    with K(1) show "fx_keys l \<subseteq> K" by (rule bspec)
  qed
  obtain tx1 ex1 where f: "foldl (\<lambda>st line. fx_or_misc line st) (tx, []) ?pre = (tx1, ex1)"
    by (cases "foldl (\<lambda>st line. fx_or_misc line st) (tx, []) ?pre")
  have u1: "upd K tx tx1" using foldl_fx_or_misc_upd[OF pre K(2), of tx "[]"] f by simp
  obtain idx tx2 ex2 where p: "parse_detail_lines ?post tx1 = Inr (idx, tx2, ex2)"
    and t: "tail_lines (drop idx ?post) (tx2, ex1 @ ex2) = Inr (tx', ex')"
  proof (cases "parse_detail_lines ?post tx1")
    case (Inl e)
    then have "walk_block b i tx = Inl e" by (simp add: walk_block_def Let_def f[unfolded One_nat_def])
    then show ?thesis using r by simp
  next
    case (Inr x)
    obtain idx tx2 ex2 where x: "x = (idx, tx2, ex2)" by (cases x)
    have "walk_block b i tx = tail_lines (drop idx ?post) (tx2, ex1 @ ex2)"
      by (simp add: walk_block_def Let_def f[unfolded One_nat_def] Inr x)
    then show ?thesis using that[of idx tx2 ex2] Inr x r by simp
  qed
  have u2: "upd K tx1 tx2" using parse_detail_lines_upd[OF post K(2,3) p] .
  have "\<forall>l \<in> set (drop idx ?post). fx_keys l \<subseteq> K" using post by (meson in_set_dropD)
  then have u3: "upd K tx2 tx'" using tail_lines_upd[OF _ K(2) K(4) t] by simp
  show ?thesis using u1 u2 u3 upd_trans by blast
qed

lemma process_block_cases:
  assumes "process_block b = Inr (Some tx)"
  obtains (header_only) h where "b \<noteq> []" "parse_header_line (hd b) = Some h"
      "find_label b 0 = None" "tx = finish_block b (seed_record h)"
  | (labelled) h i tx1 ex where "b \<noteq> []" "parse_header_line (hd b) = Some h"
      "find_label b 0 = Some i" "walk_block b i (seed_record h) = Inr (tx1, ex)"
      "tx = finish_block b (if ex \<noteq> [] then dict_set tx1 ''Doplnek''
              (VStr (join '' | '' (filter (\<lambda>l. l \<noteq> []) ex))) else tx1)"
proof (cases b)
  case Nil
  then show ?thesis using assms by (simp add: process_block_def)
next
  case (Cons line0 rest)
  show ?thesis
  proof (cases "parse_header_line line0")
    case None
    then show ?thesis using assms Cons by (simp add: process_block_def)
  next
    case (Some h)
    show ?thesis
    proof (cases "find_label b 0")
      case None
      then have "tx = finish_block b (seed_record h)"
        using assms Cons Some by (simp add: process_block_def seed_record_def)
      then show ?thesis using header_only[of h] Cons Some None by simp
    next
      case i: (Some i)
      show ?thesis
      proof (cases "walk_block b i (seed_record h)")
        case (Inl e)
        then show ?thesis using assms Cons Some i by (simp add: process_block_def seed_record_def)
      next
        case (Inr r)
        obtain tx1 ex where r: "r = (tx1, ex)" by (cases r)
        have "tx = finish_block b (if ex \<noteq> [] then dict_set tx1 ''Doplnek''
              (VStr (join '' | '' (filter (\<lambda>l. l \<noteq> []) ex))) else tx1)"
          using assms Cons Some i Inr r by (simp add: process_block_def seed_record_def Let_def)
        then show ?thesis using labelled[of h i tx1 ex] Cons Some i Inr r by simp
      qed
    qed
  qed
qed


lemma dict_get_columns: "dict_get (map (\<lambda>col. (col, VNone)) cs) k = VNone"
  by (induction cs) (auto simp: dict_get_def)

lemma keys_header: "header_ok h \<Longrightarrow> keys h = set header_keys"
  unfolding header_ok_def keys_def by (metis set_map)


lemma dict_get_update_in:
  "distinct (map fst e) \<Longrightarrow> k \<in> keys e \<Longrightarrow> dict_get (dict_update d e) k = dict_get e k"
proof (induction e arbitrary: d)
  case Nil
  then show ?case by (simp add: keys_Nil)
next
  case (Cons a e)
  obtain k' v where a: "a = (k', v)" by (cases a)
  have step: "dict_update d (a # e) = dict_update (dict_set d k' v) e"
    by (simp add: dict_update_def a)
  show ?case
  proof (cases "k = k'")
    case True
    then have "k \<notin> keys e" using Cons.prems(1) by (simp add: a keys_def)
    then have "dict_get (dict_update (dict_set d k' v) e) k = dict_get (dict_set d k' v) k"
      by (rule dict_get_update)
    also have "\<dots> = v" using True by (simp add: dict_get_set)
    also have "v = dict_get (a # e) k" using True by (simp add: a dict_get_def)
    finally show ?thesis by (simp add: step)
  next
    case False
    then have "k \<in> keys e" using Cons.prems(2) by (simp add: a keys_Cons)
    then have "dict_get (dict_update (dict_set d k' v) e) k = dict_get e k"
      using Cons.IH[of "dict_set d k' v"] Cons.prems(1) by simp
    moreover have "dict_get (a # e) k = dict_get e k" using False by (simp add: a dict_get_def)
    ultimately show ?thesis by (simp add: step)
  qed
qed

lemma seed_get_header:
  assumes "header_ok h" "k \<in> set header_keys"
  shows "dict_get (seed_record h) k = dict_get h k"
proof -
  have "distinct (map fst h)" using assms(1) by (simp add: header_ok_def header_keys_def)
  moreover have "k \<in> keys h" using assms keys_header by simp
  ultimately show ?thesis unfolding seed_record_def by (rule dict_get_update_in)
qed

lemma seed_get_other:
  assumes "header_ok h" "k \<notin> set header_keys"
  shows "dict_get (seed_record h) k = VNone"
  using assms by (simp add: seed_record_def dict_get_update keys_header dict_get_columns)




lemma fx_keys_sub:
  "fx_keys l \<subseteq> {''FX_kurz'', ''FX_kurz_mena'', ''FX_datum'', ''FX_castka'', ''FX_mena'', ''FX_info''}"
  by (simp add: fx_keys_def)

lemma walk_keys_fx: "l \<in> set ls \<Longrightarrow> fx_keys l \<subseteq> walk_keys ls"
  unfolding walk_keys_def by blast

lemma walk_keys_parts:
  "misc_keys \<subseteq> walk_keys ls" "detail_keys \<subseteq> walk_keys ls" "''Zprava'' \<in> walk_keys ls"
  unfolding walk_keys_def by blast+

lemma walk_block_walk_keys:
  assumes r: "walk_block b i tx = Inr (tx', ex')"
  shows "upd (walk_keys (tl b)) tx tx'"
proof -
  have "\<forall>l \<in> set (tl b). fx_keys l \<subseteq> walk_keys (tl b)" by (intro ballI walk_keys_fx)
  then show ?thesis using walk_block_upd[OF r _ walk_keys_parts] by simp
qed

lemma walk_keys_bound: "walk_keys ls \<subseteq> all_walk_keys"
proof -
  have 1: "{''FX_kurz'', ''FX_kurz_mena'', ''FX_datum'', ''FX_castka'', ''FX_mena'', ''FX_info''}
      \<subseteq> all_walk_keys" by (simp add: all_walk_keys_def)
  have 2: "misc_keys \<subseteq> all_walk_keys" by (simp add: all_walk_keys_def misc_keys_def)
  have 3: "detail_keys \<subseteq> all_walk_keys" by (simp add: all_walk_keys_def detail_keys_def)
  have 4: "''Zprava'' \<in> all_walk_keys" by (simp add: all_walk_keys_def)
  have 5: "\<And>l. fx_keys l \<subseteq> all_walk_keys" using fx_keys_sub 1 by (rule subset_trans)
  show ?thesis unfolding walk_keys_def using 2 3 4 5 by blast
qed
















lemma fx_default_get:
  "dict_get (fx_default t) ''FX_mena'' =
     (if truthy (dict_get t ''FX_mena'') then dict_get t ''FX_mena''
      else if truthy (dict_get t ''Mena_hlavicka'') then dict_get t ''Mena_hlavicka''
      else VStr ''CZK'')"
  by (simp add: fx_default_def dict_get_set)

lemma finish_block_get:
  "dict_get (finish_block b t) ''FX_mena'' =
     (if truthy (dict_get t ''FX_mena'') then dict_get t ''FX_mena''
      else if truthy (dict_get t ''Mena_hlavicka'') then dict_get t ''Mena_hlavicka''
      else VStr ''CZK'')"
proof -
  have "dict_get (finish_block b t) ''FX_mena'' = dict_get (fx_default t) ''FX_mena''"
    by (simp add: finish_block_def dict_get_pop dict_get_set)
  then show ?thesis by (simp add: fx_default_get)
qed

lemma finish_block_truthy: "truthy (dict_get (finish_block b t) ''FX_mena'')"
  by (simp add: finish_block_get)

lemma set_if_unset_same: "dict_get (set_if_unset d k v) k \<noteq> VNone"
  by (cases "dict_get d k") (auto simp: set_if_unset_def dict_get_set)

lemma set_if_unset_other: "k' \<noteq> k \<Longrightarrow> dict_get (set_if_unset d k v) k' = dict_get d k'"
  by (simp add: set_if_unset_def dict_get_set)

lemma fx_keys_currency: "''FX_mena'' \<in> fx_keys l \<Longrightarrow> fx_sets_currency l"
proof -
  assume a: "''FX_mena'' \<in> fx_keys l"
  have rate: "re_match FX_RATE_RE l = None" using a by (auto simp: fx_keys_def split: if_splits)
  show ?thesis
  proof (cases "re_search FX_DATE_AMOUNT_RE l")
    case (Some m)
    then show ?thesis using rate
      by (simp add: fx_sets_currency_def parse_fx_line_def Let_def dict_get_set
          set_if_unset_same)
  next
    case None
    then obtain m where "re_match FX_AMOUNT_ONLY_RE l = Some m"
      using a rate by (auto simp: fx_keys_def split: if_splits)
    then show ?thesis using rate None
      by (simp add: fx_sets_currency_def parse_fx_line_def Let_def set_if_unset_same)
  qed
qed

lemma no_currency_walk_keys:
  assumes "\<forall>l \<in> set ls. \<not> fx_sets_currency l"
  shows "''FX_mena'' \<notin> walk_keys ls"
proof -
  have "\<And>l. l \<in> set ls \<Longrightarrow> ''FX_mena'' \<notin> fx_keys l" using assms fx_keys_currency by blast
  moreover have "''FX_mena'' \<notin> misc_keys" "''FX_mena'' \<notin> detail_keys" "''FX_mena'' \<noteq> ''Zprava''"
    by (simp_all add: misc_keys_def detail_keys_def)
  ultimately show ?thesis unfolding walk_keys_def by blast
qed

lemma header_currency_walk_keys: "''Mena_hlavicka'' \<notin> walk_keys ls"
proof -
  have "''Mena_hlavicka'' \<notin> all_walk_keys" by (simp add: all_walk_keys_def)
  then show ?thesis using walk_keys_bound by blast
qed

section \<open>Concrete blocks\<close>



lemma eval_fx_after_label:
  "process_block [''12. 3. 2024 SOME SHOP LTD -456,00 CZK'', ''Datum provedeni Kod transakce Typ transakce VS SS KS'', ''10.3.2024 50,00 USD''] =
     Inr (Some [(''Datum'', VStr ''12. 3. 2024''), (''Popis_hlavicka'', VStr ''SOME SHOP LTD''), (''Protistrana'', VStr ''SOME SHOP LTD''), (''Protiucet'', VNone), (''Karta'', VNone), (''Castka_CZK'', VNum (Finite (- 456))), (''Castka_raw'', VStr ''-456,00''), (''Datum_provedeni'', VStr ''10.3.2024''), (''Kod_transakce'', VNone), (''Typ_transakce'', VNone), (''VS'', VNone), (''SS'', VNone), (''KS'', VNone), (''Zprava'', VNone), (''ATM_ID'', VNone), (''FX_mena'', VStr ''CZK''), (''FX_kurz'', VNone), (''FX_kurz_mena'', VNone), (''Doplnek'', VNone), (''Blok_text'', VStr ''12. 3. 2024 SOME SHOP LTD -456,00 CZK | Datum provedeni Kod transakce Typ transakce VS SS KS | 10.3.2024 50,00 USD''), (''Karta_sit'', VNone)])"
  by code_simp

lemma eval_fx_after_label_header:
  "parse_header_line (hd [''12. 3. 2024 SOME SHOP LTD -456,00 CZK'', ''Datum provedeni Kod transakce Typ transakce VS SS KS'', ''10.3.2024 50,00 USD'']) =
     Some [(''Datum'', VStr ''12. 3. 2024''), (''Popis_hlavicka'', VStr ''SOME SHOP LTD''), (''Protistrana'', VStr ''SOME SHOP LTD''), (''Protiucet'', VNone), (''Karta'', VNone), (''Karta_sit'', VNone), (''Castka_raw'', VStr ''-456,00''), (''Castka_CZK'', VNum (Finite (- 456))), (''Mena_hlavicka'', VStr ''CZK'')]"
  by code_simp

lemma eval_fx_after_label_walk:
  "walk_block [''12. 3. 2024 SOME SHOP LTD -456,00 CZK'', ''Datum provedeni Kod transakce Typ transakce VS SS KS'', ''10.3.2024 50,00 USD''] 1
     (seed_record [(''Datum'', VStr ''12. 3. 2024''), (''Popis_hlavicka'', VStr ''SOME SHOP LTD''), (''Protistrana'', VStr ''SOME SHOP LTD''), (''Protiucet'', VNone), (''Karta'', VNone), (''Karta_sit'', VNone), (''Castka_raw'', VStr ''-456,00''), (''Castka_CZK'', VNum (Finite (- 456))), (''Mena_hlavicka'', VStr ''CZK'')]) =
   Inr ([(''Datum'', VStr ''12. 3. 2024''), (''Popis_hlavicka'', VStr ''SOME SHOP LTD''), (''Protistrana'', VStr ''SOME SHOP LTD''), (''Protiucet'', VNone), (''Karta'', VNone), (''Castka_CZK'', VNum (Finite (- 456))), (''Castka_raw'', VStr ''-456,00''), (''Datum_provedeni'', VStr ''10.3.2024''), (''Kod_transakce'', VNone), (''Typ_transakce'', VNone), (''VS'', VNone), (''SS'', VNone), (''KS'', VNone), (''Zprava'', VNone), (''ATM_ID'', VNone), (''FX_mena'', VNone), (''FX_kurz'', VNone), (''FX_kurz_mena'', VNone), (''Doplnek'', VNone), (''Blok_text'', VNone), (''Karta_sit'', VNone), (''Mena_hlavicka'', VStr ''CZK'')], [])"
  by code_simp

section \<open>The fields of an emitted record\<close>





section \<open>The default of the FX currency\<close>

text \<open>
  C9: in every emitted record the FX currency is set (neither \<open>None\<close> nor empty).  In a
  block without a label line it is the header currency, or \<open>CZK\<close> when the header has none.
  In a block with a label line it is the FX currency of the record as the walk over the lines
  left it when that is set, and otherwise the header currency, or \<open>CZK\<close> when the header has
  none; the walk leaves it unset when no line after the header has an FX shape that carries
  a currency.
\<close>

theorem fx_currency_default:
  assumes "process_block b = Inr (Some tx)"
  shows "truthy (dict_get tx ''FX_mena'') \<and>
         (\<exists>h. parse_header_line (hd b) = Some h \<and>
            (case find_label b 0 of
               None \<Rightarrow> dict_get tx ''FX_mena'' = header_default h
             | Some i \<Rightarrow>
                 (\<exists>tx1 ex. walk_block b i (seed_record h) = Inr (tx1, ex) \<and>
                    dict_get tx ''FX_mena'' =
                      (if truthy (dict_get tx1 ''FX_mena'') then dict_get tx1 ''FX_mena''
                       else header_default h) \<and>
                    ((\<forall>l \<in> set (tl b). \<not> fx_sets_currency l) \<longrightarrow>
                       \<not> truthy (dict_get tx1 ''FX_mena'')))))"
  using assms
proof (cases rule: process_block_cases)
  case (header_only h)
  have ok: "header_ok h" using header_only(2) by (rule parse_header_line_shape)
  have 1: "dict_get (seed_record h) ''FX_mena'' = VNone"
    by (rule seed_get_other[OF ok]) (simp add: header_keys_def)
  have 2: "dict_get (seed_record h) ''Mena_hlavicka'' = dict_get h ''Mena_hlavicka''"
    by (rule seed_get_header[OF ok]) (simp add: header_keys_def)
  have "dict_get tx ''FX_mena'' = header_default h"
    unfolding header_only(4) using 1 2 by (simp add: finish_block_get header_default_def)
  moreover have "truthy (dict_get tx ''FX_mena'')"
    unfolding header_only(4) by (rule finish_block_truthy)
  ultimately show ?thesis using header_only(2,3) by (intro conjI exI[of _ h]) simp_all
next
  case (labelled h i tx1 ex)
  have ok: "header_ok h" using labelled(2) by (rule parse_header_line_shape)
  have 1: "dict_get (seed_record h) ''FX_mena'' = VNone"
    by (rule seed_get_other[OF ok]) (simp add: header_keys_def)
  have 2: "dict_get (seed_record h) ''Mena_hlavicka'' = dict_get h ''Mena_hlavicka''"
    by (rule seed_get_header[OF ok]) (simp add: header_keys_def)
  have u: "upd (walk_keys (tl b)) (seed_record h) tx1" using labelled(4) by (rule walk_block_walk_keys)
  define t where "t = (if ex \<noteq> [] then dict_set tx1 ''Doplnek''
              (VStr (join '' | '' (filter (\<lambda>l. l \<noteq> []) ex))) else tx1)"
  have tx: "tx = finish_block b t" using labelled(5) by (simp add: t_def)
  have g: "dict_get t ''FX_mena'' = dict_get tx1 ''FX_mena''"
    "dict_get t ''Mena_hlavicka'' = dict_get tx1 ''Mena_hlavicka''"
    by (simp_all add: t_def dict_get_set)
  have m: "dict_get tx1 ''Mena_hlavicka'' = dict_get h ''Mena_hlavicka''"
    using upd_get[OF u header_currency_walk_keys] 2 by simp
  have t: "truthy (dict_get tx ''FX_mena'')" unfolding tx by (rule finish_block_truthy)
  have e: "dict_get tx ''FX_mena'' =
      (if truthy (dict_get tx1 ''FX_mena'') then dict_get tx1 ''FX_mena'' else header_default h)"
    unfolding tx using g m by (simp add: finish_block_get header_default_def)
  have d: "(\<forall>l \<in> set (tl b). \<not> fx_sets_currency l) \<longrightarrow> \<not> truthy (dict_get tx1 ''FX_mena'')"
  proof
    assume "\<forall>l \<in> set (tl b). \<not> fx_sets_currency l"
    then have "''FX_mena'' \<notin> walk_keys (tl b)" by (rule no_currency_walk_keys)
    then have "dict_get tx1 ''FX_mena'' = VNone" using upd_get[OF u] 1 by simp
    then show "\<not> truthy (dict_get tx1 ''FX_mena'')" by simp
  qed
  have "\<exists>tx1 ex. walk_block b i (seed_record h) = Inr (tx1, ex) \<and>
      dict_get tx ''FX_mena'' =
        (if truthy (dict_get tx1 ''FX_mena'') then dict_get tx1 ''FX_mena'' else header_default h) \<and>
      ((\<forall>l \<in> set (tl b). \<not> fx_sets_currency l) \<longrightarrow> \<not> truthy (dict_get tx1 ''FX_mena''))"
    using labelled(4) e d by blast
  then show ?thesis using t labelled(2,3) by (intro conjI exI[of _ h]) simp_all
qed

theorem fx_currency_default_witness:
  "process_block [''12. 3. 2024 SOME SHOP LTD -456,00 CZK'', ''Datum provedeni Kod transakce Typ transakce VS SS KS'', ''10.3.2024 50,00 USD''] =
     Inr (Some [(''Datum'', VStr ''12. 3. 2024''), (''Popis_hlavicka'', VStr ''SOME SHOP LTD''), (''Protistrana'', VStr ''SOME SHOP LTD''), (''Protiucet'', VNone), (''Karta'', VNone), (''Castka_CZK'', VNum (Finite (- 456))), (''Castka_raw'', VStr ''-456,00''), (''Datum_provedeni'', VStr ''10.3.2024''), (''Kod_transakce'', VNone), (''Typ_transakce'', VNone), (''VS'', VNone), (''SS'', VNone), (''KS'', VNone), (''Zprava'', VNone), (''ATM_ID'', VNone), (''FX_mena'', VStr ''CZK''), (''FX_kurz'', VNone), (''FX_kurz_mena'', VNone), (''Doplnek'', VNone), (''Blok_text'', VStr ''12. 3. 2024 SOME SHOP LTD -456,00 CZK | Datum provedeni Kod transakce Typ transakce VS SS KS | 10.3.2024 50,00 USD''), (''Karta_sit'', VNone)]) \<and>
   truthy (dict_get [(''Datum'', VStr ''12. 3. 2024''), (''Popis_hlavicka'', VStr ''SOME SHOP LTD''), (''Protistrana'', VStr ''SOME SHOP LTD''), (''Protiucet'', VNone), (''Karta'', VNone), (''Castka_CZK'', VNum (Finite (- 456))), (''Castka_raw'', VStr ''-456,00''), (''Datum_provedeni'', VStr ''10.3.2024''), (''Kod_transakce'', VNone), (''Typ_transakce'', VNone), (''VS'', VNone), (''SS'', VNone), (''KS'', VNone), (''Zprava'', VNone), (''ATM_ID'', VNone), (''FX_mena'', VStr ''CZK''), (''FX_kurz'', VNone), (''FX_kurz_mena'', VNone), (''Doplnek'', VNone), (''Blok_text'', VStr ''12. 3. 2024 SOME SHOP LTD -456,00 CZK | Datum provedeni Kod transakce Typ transakce VS SS KS | 10.3.2024 50,00 USD''), (''Karta_sit'', VNone)] ''FX_mena'') \<and>
   dict_get [(''Datum'', VStr ''12. 3. 2024''), (''Popis_hlavicka'', VStr ''SOME SHOP LTD''), (''Protistrana'', VStr ''SOME SHOP LTD''), (''Protiucet'', VNone), (''Karta'', VNone), (''Castka_CZK'', VNum (Finite (- 456))), (''Castka_raw'', VStr ''-456,00''), (''Datum_provedeni'', VStr ''10.3.2024''), (''Kod_transakce'', VNone), (''Typ_transakce'', VNone), (''VS'', VNone), (''SS'', VNone), (''KS'', VNone), (''Zprava'', VNone), (''ATM_ID'', VNone), (''FX_mena'', VStr ''CZK''), (''FX_kurz'', VNone), (''FX_kurz_mena'', VNone), (''Doplnek'', VNone), (''Blok_text'', VStr ''12. 3. 2024 SOME SHOP LTD -456,00 CZK | Datum provedeni Kod transakce Typ transakce VS SS KS | 10.3.2024 50,00 USD''), (''Karta_sit'', VNone)] ''FX_mena'' = VStr ''CZK''"
proof -
  let ?b = "[''12. 3. 2024 SOME SHOP LTD -456,00 CZK'', ''Datum provedeni Kod transakce Typ transakce VS SS KS'', ''10.3.2024 50,00 USD'']"
  let ?t = "[(''Datum'', VStr ''12. 3. 2024''), (''Popis_hlavicka'', VStr ''SOME SHOP LTD''), (''Protistrana'', VStr ''SOME SHOP LTD''), (''Protiucet'', VNone), (''Karta'', VNone), (''Castka_CZK'', VNum (Finite (- 456))), (''Castka_raw'', VStr ''-456,00''), (''Datum_provedeni'', VStr ''10.3.2024''), (''Kod_transakce'', VNone), (''Typ_transakce'', VNone), (''VS'', VNone), (''SS'', VNone), (''KS'', VNone), (''Zprava'', VNone), (''ATM_ID'', VNone), (''FX_mena'', VStr ''CZK''), (''FX_kurz'', VNone), (''FX_kurz_mena'', VNone), (''Doplnek'', VNone), (''Blok_text'', VStr ''12. 3. 2024 SOME SHOP LTD -456,00 CZK | Datum provedeni Kod transakce Typ transakce VS SS KS | 10.3.2024 50,00 USD''), (''Karta_sit'', VNone)]"
  let ?h = "[(''Datum'', VStr ''12. 3. 2024''), (''Popis_hlavicka'', VStr ''SOME SHOP LTD''), (''Protistrana'', VStr ''SOME SHOP LTD''), (''Protiucet'', VNone), (''Karta'', VNone), (''Karta_sit'', VNone), (''Castka_raw'', VStr ''-456,00''), (''Castka_CZK'', VNum (Finite (- 456))), (''Mena_hlavicka'', VStr ''CZK'')]"
  let ?w = "[(''Datum'', VStr ''12. 3. 2024''), (''Popis_hlavicka'', VStr ''SOME SHOP LTD''), (''Protistrana'', VStr ''SOME SHOP LTD''), (''Protiucet'', VNone), (''Karta'', VNone), (''Castka_CZK'', VNum (Finite (- 456))), (''Castka_raw'', VStr ''-456,00''), (''Datum_provedeni'', VStr ''10.3.2024''), (''Kod_transakce'', VNone), (''Typ_transakce'', VNone), (''VS'', VNone), (''SS'', VNone), (''KS'', VNone), (''Zprava'', VNone), (''ATM_ID'', VNone), (''FX_mena'', VNone), (''FX_kurz'', VNone), (''FX_kurz_mena'', VNone), (''Doplnek'', VNone), (''Blok_text'', VNone), (''Karta_sit'', VNone), (''Mena_hlavicka'', VStr ''CZK'')]"
  have e: "process_block ?b = Inr (Some ?t)" by (rule eval_fx_after_label)
  have h: "parse_header_line (hd ?b) = Some ?h" by (rule eval_fx_after_label_header)
  have f: "find_label ?b 0 = Some 1" by code_simp
  have w: "walk_block ?b 1 (seed_record ?h) = Inr (?w, [])" by (rule eval_fx_after_label_walk)
  have u: "\<not> truthy (dict_get ?w ''FX_mena'')" by (simp add: dict_get_def)
  have d: "header_default ?h = VStr ''CZK''" by (simp add: header_default_def dict_get_def)
  from fx_currency_default[OF e] obtain h' where t: "truthy (dict_get ?t ''FX_mena'')"
    and h': "parse_header_line (hd ?b) = Some h'"
    and c: "case find_label ?b 0 of
               None \<Rightarrow> dict_get ?t ''FX_mena'' = header_default h'
             | Some i \<Rightarrow>
                 (\<exists>tx1 ex. walk_block ?b i (seed_record h') = Inr (tx1, ex) \<and>
                    dict_get ?t ''FX_mena'' =
                      (if truthy (dict_get tx1 ''FX_mena'') then dict_get tx1 ''FX_mena''
                       else header_default h') \<and>
                    ((\<forall>l \<in> set (tl ?b). \<not> fx_sets_currency l) \<longrightarrow>
                       \<not> truthy (dict_get tx1 ''FX_mena'')))"
    by blast
  have hh: "h' = ?h" using h h' by simp
  from c obtain tx1 ex where w': "walk_block ?b 1 (seed_record ?h) = Inr (tx1, ex)"
    and v: "dict_get ?t ''FX_mena'' =
      (if truthy (dict_get tx1 ''FX_mena'') then dict_get tx1 ''FX_mena'' else header_default ?h)"
    unfolding f hh by auto
  have "tx1 = ?w" using w w' by simp
  then have "dict_get ?t ''FX_mena'' = VStr ''CZK''" using v u d by metis
  then show ?thesis using e t by (intro conjI)
qed

section \<open>The FX line parser\<close>

lemma dict_set_same: "map_of d k = Some v \<Longrightarrow> dict_set d k v = d"
  by (induction d) (auto split: if_splits)

lemma is_set_fixed: "is_set d k v \<Longrightarrow> set_if_unset d k v = d"
  by (auto simp: is_set_def set_if_unset_def dict_set_same)

lemma is_set_after: "is_set (set_if_unset d k v) k v"
  by (simp add: is_set_def set_if_unset_def dict_get_set map_of_dict_set)

lemma is_set_dict_set: "k' \<noteq> k \<Longrightarrow> is_set d k v \<Longrightarrow> is_set (dict_set d k' w) k v"
  by (simp add: is_set_def dict_get_set map_of_dict_set)

lemma is_set_other: "k' \<noteq> k \<Longrightarrow> is_set d k v \<Longrightarrow> is_set (set_if_unset d k' v') k v"
  by (simp add: set_if_unset_def is_set_dict_set)

lemma fx_info_fixed:
  "(let t = (if p \<noteq> [] \<and> \<not> truthy (dict_get d ''FX_info'') then dict_set d ''FX_info'' (VStr p) else d)
    in if p \<noteq> [] \<and> \<not> truthy (dict_get t ''FX_info'') then dict_set t ''FX_info'' (VStr p) else t) =
   (if p \<noteq> [] \<and> \<not> truthy (dict_get d ''FX_info'') then dict_set d ''FX_info'' (VStr p) else d)"
  by (simp add: dict_get_set)

lemma parse_fx_line_twice:
  "parse_fx_line line (snd (parse_fx_line line tx)) = parse_fx_line line tx"
proof (cases "re_match FX_RATE_RE line")
  case (Some m)
  let ?a = "replace (group m ''rate'') '' '' []" and ?b = "group m ''currency''"
  let ?t = "set_if_unset (set_if_unset tx ''FX_kurz'' ?a) ''FX_kurz_mena'' ?b"
  have r: "\<And>d. parse_fx_line line d =
      (True, set_if_unset (set_if_unset d ''FX_kurz'' ?a) ''FX_kurz_mena'' ?b)"
    using Some by (simp add: parse_fx_line_def Let_def)
  have 1: "set_if_unset ?t ''FX_kurz'' ?a = ?t"
    by (rule is_set_fixed) (simp add: is_set_other is_set_after)
  have 2: "set_if_unset ?t ''FX_kurz_mena'' ?b = ?t"
    by (rule is_set_fixed) (rule is_set_after)
  show ?thesis by (simp add: r 1 2)
next
  case rate: None
  show ?thesis
  proof (cases "re_search FX_DATE_AMOUNT_RE line")
    case (Some m)
    define f where "f = (\<lambda>d. set_if_unset (set_if_unset (set_if_unset d ''FX_datum''
        (group m ''date'')) ''FX_castka'' (replace (group m ''amount'') '' '' [])) ''FX_mena''
        (group m ''currency''))"
    define p where "p = strip (take (mstart m) line)"
    define g where "g = (\<lambda>d. if p \<noteq> [] \<and> \<not> truthy (dict_get d ''FX_info'')
        then dict_set d ''FX_info'' (VStr p) else d)"
    have r: "\<And>d. parse_fx_line line d = (True, g (f d))"
      using Some rate by (simp add: parse_fx_line_def Let_def f_def g_def p_def)
    define t where "t = g (f tx)"
    have a: "is_set t ''FX_datum'' (group m ''date'')"
      by (simp add: t_def g_def f_def is_set_other is_set_after is_set_dict_set)
    have b: "is_set t ''FX_castka'' (replace (group m ''amount'') '' '' [])"
      by (simp add: t_def g_def f_def is_set_other is_set_after is_set_dict_set)
    have c: "is_set t ''FX_mena'' (group m ''currency'')"
      by (simp add: t_def g_def f_def is_set_other is_set_after is_set_dict_set)
    have 1: "f t = t" using a b c by (simp add: f_def is_set_fixed)
    have 2: "g t = t" by (simp add: t_def g_def dict_get_set)
    have "parse_fx_line line (snd (parse_fx_line line tx)) = (True, g (f t))"
      by (simp add: r t_def)
    then show ?thesis using 1 2 by (simp add: r t_def)
  next
    case da: None
    show ?thesis
    proof (cases "re_match FX_AMOUNT_ONLY_RE line")
      case (Some m)
      let ?a = "replace (group m ''amount'') '' '' []" and ?b = "group m ''currency''"
      let ?t = "set_if_unset (set_if_unset tx ''FX_castka'' ?a) ''FX_mena'' ?b"
      have r: "\<And>d. parse_fx_line line d =
          (True, set_if_unset (set_if_unset d ''FX_castka'' ?a) ''FX_mena'' ?b)"
        using Some rate da by (simp add: parse_fx_line_def Let_def)
      have 1: "set_if_unset ?t ''FX_castka'' ?a = ?t"
        by (rule is_set_fixed) (simp add: is_set_other is_set_after)
      have 2: "set_if_unset ?t ''FX_mena'' ?b = ?t"
        by (rule is_set_fixed) (rule is_set_after)
      show ?thesis by (simp add: r 1 2)
    next
      case None
      then show ?thesis using rate da by (simp add: parse_fx_line_def)
    qed
  qed
qed

lemma set_if_unset_keeps:
  "truthy (dict_get d k) \<Longrightarrow> dict_get (set_if_unset d k' v) k = dict_get d k"
  by (cases "k = k'") (simp_all add: set_if_unset_def dict_get_set)

lemma set_if_unset_truthy:
  "truthy (dict_get d k) \<Longrightarrow> truthy (dict_get (set_if_unset d k' v) k)"
  by (simp add: set_if_unset_keeps)

lemma parse_fx_line_keeps:
  assumes t: "truthy (dict_get tx k)"
  shows "dict_get (snd (parse_fx_line line tx)) k = dict_get tx k"
proof (cases "re_match FX_RATE_RE line")
  case (Some m)
  then show ?thesis using t
    by (simp add: parse_fx_line_def Let_def set_if_unset_keeps set_if_unset_truthy)
next
  case rate: None
  show ?thesis
  proof (cases "re_search FX_DATE_AMOUNT_RE line")
    case (Some m)
    define f where "f = (\<lambda>d. set_if_unset (set_if_unset (set_if_unset d ''FX_datum''
        (group m ''date'')) ''FX_castka'' (replace (group m ''amount'') '' '' [])) ''FX_mena''
        (group m ''currency''))"
    define p where "p = strip (take (mstart m) line)"
    have r: "parse_fx_line line tx =
        (True, if p \<noteq> [] \<and> \<not> truthy (dict_get (f tx) ''FX_info'')
               then dict_set (f tx) ''FX_info'' (VStr p) else f tx)"
      using Some rate by (simp add: parse_fx_line_def Let_def f_def p_def)
    have 1: "dict_get (f tx) k = dict_get tx k"
      using t by (simp add: f_def set_if_unset_keeps set_if_unset_truthy)
    show ?thesis
    proof (cases "k = ''FX_info''")
      case True
      then have "truthy (dict_get (f tx) ''FX_info'')" using 1 t by simp
      then show ?thesis using r 1 by simp
    next
      case False
      then show ?thesis using r 1 by (simp add: dict_get_set)
    qed
  next
    case da: None
    show ?thesis
    proof (cases "re_match FX_AMOUNT_ONLY_RE line")
      case (Some m)
      then show ?thesis using t rate da
        by (simp add: parse_fx_line_def Let_def set_if_unset_keeps set_if_unset_truthy)
    next
      case None
      then show ?thesis using rate da by (simp add: parse_fx_line_def)
    qed
  qed
qed

text \<open>
  C8, as stated: the three shapes are tried in the order of the specification (date, amount
  and currency; amount and currency; the rate).  On a line that has both the rate shape and
  the shape with a date, the program sets the rate fields, where that order would set the
  date, amount and currency: the program tries the rate shape first.
\<close>

theorem parse_fx_line_order_differs:
  "parse_fx_line ''1 USD = 22,50 Kc 10.3.2024 50,00 USD'' [] =
     (True, [(''FX_kurz'', VStr ''22,50''), (''FX_kurz_mena'', VStr ''USD'')]) \<and>
   parse_fx_line_spec_order ''1 USD = 22,50 Kc 10.3.2024 50,00 USD'' [] =
     (True, [(''FX_datum'', VStr ''10.3.2024''), (''FX_castka'', VStr ''50,00''),
             (''FX_mena'', VStr ''USD''), (''FX_info'', VStr ''1 USD = 22,50 Kc'')]) \<and>
   parse_fx_line ''1 USD = 22,50 Kc 10.3.2024 50,00 USD'' [] \<noteq>
     parse_fx_line_spec_order ''1 USD = 22,50 Kc 10.3.2024 50,00 USD'' []"
  by code_simp

text \<open>
  C8, amended: for every line and record, the FX parser tries the rate shape first, then the
  shape with date, amount and currency, then the shape with amount and currency, and the
  first match wins; a line with none of them is consumed when its lower-cased text contains
  \<open>kurz\<close>, with the record unchanged.  A field that is already set keeps its value, and
  applying the parser twice with the same line gives the same record and result as applying
  it once.
\<close>

theorem parse_fx_line_idempotent:
  "parse_fx_line line (snd (parse_fx_line line tx)) = parse_fx_line line tx \<and>
   (\<forall>k. truthy (dict_get tx k) \<longrightarrow> dict_get (snd (parse_fx_line line tx)) k = dict_get tx k) \<and>
   (\<forall>m. re_match FX_RATE_RE line = Some m \<longrightarrow>
      parse_fx_line line tx =
        (True, set_if_unset (set_if_unset tx ''FX_kurz'' (replace (group m ''rate'') '' '' []))
                 ''FX_kurz_mena'' (group m ''currency''))) \<and>
   (\<forall>m. re_match FX_RATE_RE line = None \<longrightarrow> re_search FX_DATE_AMOUNT_RE line = Some m \<longrightarrow>
      parse_fx_line line tx =
        (let t = set_if_unset (set_if_unset (set_if_unset tx ''FX_datum'' (group m ''date''))
                   ''FX_castka'' (replace (group m ''amount'') '' '' []))
                   ''FX_mena'' (group m ''currency'');
             prefix = strip (take (mstart m) line)
         in (True, if prefix \<noteq> [] \<and> \<not> truthy (dict_get t ''FX_info'')
                   then dict_set t ''FX_info'' (VStr prefix) else t))) \<and>
   (\<forall>m. re_match FX_RATE_RE line = None \<longrightarrow> re_search FX_DATE_AMOUNT_RE line = None \<longrightarrow>
      re_match FX_AMOUNT_ONLY_RE line = Some m \<longrightarrow>
      parse_fx_line line tx =
        (True, set_if_unset (set_if_unset tx ''FX_castka''
                 (replace (group m ''amount'') '' '' [])) ''FX_mena'' (group m ''currency''))) \<and>
   (re_match FX_RATE_RE line = None \<longrightarrow> re_search FX_DATE_AMOUNT_RE line = None \<longrightarrow>
      re_match FX_AMOUNT_ONLY_RE line = None \<longrightarrow>
      parse_fx_line line tx = (contains (lower line) ''kurz'', tx))"
proof (intro conjI allI impI)
  show "parse_fx_line line (snd (parse_fx_line line tx)) = parse_fx_line line tx"
    by (rule parse_fx_line_twice)
next
  fix k assume "truthy (dict_get tx k)"
  then show "dict_get (snd (parse_fx_line line tx)) k = dict_get tx k"
    by (rule parse_fx_line_keeps)
qed (simp_all add: parse_fx_line_def Let_def)

theorem parse_fx_line_idempotent_witness:
  "parse_fx_line ''1 USD = 22,50 Kc 10.3.2024 50,00 USD''
     (snd (parse_fx_line ''1 USD = 22,50 Kc 10.3.2024 50,00 USD'' [(''FX_kurz'', VStr ''21,00'')])) =
   parse_fx_line ''1 USD = 22,50 Kc 10.3.2024 50,00 USD'' [(''FX_kurz'', VStr ''21,00'')] \<and>
   dict_get (snd (parse_fx_line ''1 USD = 22,50 Kc 10.3.2024 50,00 USD''
     [(''FX_kurz'', VStr ''21,00'')])) ''FX_kurz'' = VStr ''21,00''"
proof -
  let ?l = "''1 USD = 22,50 Kc 10.3.2024 50,00 USD''"
  let ?tx = "[(''FX_kurz'', VStr ''21,00'')]"
  have t: "truthy (dict_get ?tx ''FX_kurz'')" by (simp add: dict_get_def)
  have g: "dict_get ?tx ''FX_kurz'' = VStr ''21,00''" by (simp add: dict_get_def)
  from parse_fx_line_idempotent[of ?l ?tx] t g show ?thesis by metis
qed

section \<open>Scenario: a simple domestic purchase\<close>

lemma simple_header:
  "parse_header_line ''12. 3. 2024 SOME SHOP LTD 123456 45** **** 7890 -456,00 CZK'' =
     Some [(''Datum'', VStr ''12. 3. 2024''), (''Popis_hlavicka'', VStr ''SOME SHOP LTD 123456 45** **** 7890''), (''Protistrana'', VStr ''SOME SHOP LTD 123456 45** **** 7890''), (''Protiucet'', VNone), (''Karta'', VNone), (''Karta_sit'', VNone), (''Castka_raw'', VStr ''-456,00''), (''Castka_CZK'', VNum (Finite (- 456))), (''Mena_hlavicka'', VStr ''CZK'')]"
  by code_simp

lemma simple_seed:
  "dict_update (map (\<lambda>col. (col, VNone)) COLUMNS)
     [(''Datum'', VStr ''12. 3. 2024''), (''Popis_hlavicka'', VStr ''SOME SHOP LTD 123456 45** **** 7890''), (''Protistrana'', VStr ''SOME SHOP LTD 123456 45** **** 7890''), (''Protiucet'', VNone), (''Karta'', VNone), (''Karta_sit'', VNone), (''Castka_raw'', VStr ''-456,00''), (''Castka_CZK'', VNum (Finite (- 456))), (''Mena_hlavicka'', VStr ''CZK'')] =
   [(''Datum'', VStr ''12. 3. 2024''), (''Popis_hlavicka'', VStr ''SOME SHOP LTD 123456 45** **** 7890''), (''Protistrana'', VStr ''SOME SHOP LTD 123456 45** **** 7890''), (''Protiucet'', VNone), (''Karta'', VNone), (''Castka_CZK'', VNum (Finite (- 456))), (''Castka_raw'', VStr ''-456,00''), (''Datum_provedeni'', VNone), (''Kod_transakce'', VNone), (''Typ_transakce'', VNone), (''VS'', VNone), (''SS'', VNone), (''KS'', VNone), (''Zprava'', VNone), (''ATM_ID'', VNone), (''FX_mena'', VNone), (''FX_kurz'', VNone), (''FX_kurz_mena'', VNone), (''Doplnek'', VNone), (''Blok_text'', VNone), (''Karta_sit'', VNone), (''Mena_hlavicka'', VStr ''CZK'')]"
  by code_simp

lemma simple_detail:
  "parse_detail_lines [''13. 3. 2024 CODE PLATBA KARTOU - - -'']
     [(''Datum'', VStr ''12. 3. 2024''), (''Popis_hlavicka'', VStr ''SOME SHOP LTD 123456 45** **** 7890''), (''Protistrana'', VStr ''SOME SHOP LTD 123456 45** **** 7890''), (''Protiucet'', VNone), (''Karta'', VNone), (''Castka_CZK'', VNum (Finite (- 456))), (''Castka_raw'', VStr ''-456,00''), (''Datum_provedeni'', VNone), (''Kod_transakce'', VNone), (''Typ_transakce'', VNone), (''VS'', VNone), (''SS'', VNone), (''KS'', VNone), (''Zprava'', VNone), (''ATM_ID'', VNone), (''FX_mena'', VNone), (''FX_kurz'', VNone), (''FX_kurz_mena'', VNone), (''Doplnek'', VNone), (''Blok_text'', VNone), (''Karta_sit'', VNone), (''Mena_hlavicka'', VStr ''CZK'')] =
   Inr (1, [(''Datum'', VStr ''12. 3. 2024''), (''Popis_hlavicka'', VStr ''SOME SHOP LTD 123456 45** **** 7890''), (''Protistrana'', VStr ''SOME SHOP LTD 123456 45** **** 7890''), (''Protiucet'', VNone), (''Karta'', VNone), (''Castka_CZK'', VNum (Finite (- 456))), (''Castka_raw'', VStr ''-456,00''), (''Datum_provedeni'', VStr ''13. 3. 2024''), (''Kod_transakce'', VStr ''CODE''), (''Typ_transakce'', VStr ''PLATBA KARTOU''), (''VS'', VStr []), (''SS'', VStr []), (''KS'', VStr []), (''Zprava'', VNone), (''ATM_ID'', VNone), (''FX_mena'', VNone), (''FX_kurz'', VNone), (''FX_kurz_mena'', VNone), (''Doplnek'', VNone), (''Blok_text'', VNone), (''Karta_sit'', VNone), (''Mena_hlavicka'', VStr ''CZK'')], [])"
  by code_simp

lemma simple_fx_default:
  "fx_default [(''Datum'', VStr ''12. 3. 2024''), (''Popis_hlavicka'', VStr ''SOME SHOP LTD 123456 45** **** 7890''), (''Protistrana'', VStr ''SOME SHOP LTD 123456 45** **** 7890''), (''Protiucet'', VNone), (''Karta'', VNone), (''Castka_CZK'', VNum (Finite (- 456))), (''Castka_raw'', VStr ''-456,00''), (''Datum_provedeni'', VStr ''13. 3. 2024''), (''Kod_transakce'', VStr ''CODE''), (''Typ_transakce'', VStr ''PLATBA KARTOU''), (''VS'', VStr []), (''SS'', VStr []), (''KS'', VStr []), (''Zprava'', VNone), (''ATM_ID'', VNone), (''FX_mena'', VNone), (''FX_kurz'', VNone), (''FX_kurz_mena'', VNone), (''Doplnek'', VNone), (''Blok_text'', VNone), (''Karta_sit'', VNone), (''Mena_hlavicka'', VStr ''CZK'')] =
   [(''Datum'', VStr ''12. 3. 2024''), (''Popis_hlavicka'', VStr ''SOME SHOP LTD 123456 45** **** 7890''), (''Protistrana'', VStr ''SOME SHOP LTD 123456 45** **** 7890''), (''Protiucet'', VNone), (''Karta'', VNone), (''Castka_CZK'', VNum (Finite (- 456))), (''Castka_raw'', VStr ''-456,00''), (''Datum_provedeni'', VStr ''13. 3. 2024''), (''Kod_transakce'', VStr ''CODE''), (''Typ_transakce'', VStr ''PLATBA KARTOU''), (''VS'', VStr []), (''SS'', VStr []), (''KS'', VStr []), (''Zprava'', VNone), (''ATM_ID'', VNone), (''FX_mena'', VStr ''CZK''), (''FX_kurz'', VNone), (''FX_kurz_mena'', VNone), (''Doplnek'', VNone), (''Blok_text'', VNone), (''Karta_sit'', VNone), (''Mena_hlavicka'', VStr ''CZK'')]"
  by code_simp

lemma simple_header_no_label:
  "\<not> is_label_line ''12. 3. 2024 SOME SHOP LTD 123456 45** **** 7890 -456,00 CZK''"
  by code_simp

lemma simple_record:
  assumes "is_label_line lbl"
  shows "process_block [''12. 3. 2024 SOME SHOP LTD 123456 45** **** 7890 -456,00 CZK'', lbl, ''13. 3. 2024 CODE PLATBA KARTOU - - -''] =
     Inr (Some [(''Datum'', VStr ''12. 3. 2024''), (''Popis_hlavicka'', VStr ''SOME SHOP LTD 123456 45** **** 7890''), (''Protistrana'', VStr ''SOME SHOP LTD 123456 45** **** 7890''), (''Protiucet'', VNone), (''Karta'', VNone), (''Castka_CZK'', VNum (Finite (- 456))), (''Castka_raw'', VStr ''-456,00''), (''Datum_provedeni'', VStr ''13. 3. 2024''), (''Kod_transakce'', VStr ''CODE''), (''Typ_transakce'', VStr ''PLATBA KARTOU''), (''VS'', VStr []), (''SS'', VStr []), (''KS'', VStr []), (''Zprava'', VNone), (''ATM_ID'', VNone), (''FX_mena'', VStr ''CZK''), (''FX_kurz'', VNone), (''FX_kurz_mena'', VNone), (''Doplnek'', VNone), (''Blok_text'', VStr (join '' | '' [''12. 3. 2024 SOME SHOP LTD 123456 45** **** 7890 -456,00 CZK'', lbl, ''13. 3. 2024 CODE PLATBA KARTOU - - -''])), (''Karta_sit'', VNone)])"
proof -
  let ?b = "[''12. 3. 2024 SOME SHOP LTD 123456 45** **** 7890 -456,00 CZK'', lbl, ''13. 3. 2024 CODE PLATBA KARTOU - - -'']"
  have fl: "find_label ?b 0 = Some 1" using assms simple_header_no_label by simp
  have wb: "walk_block ?b (Suc 0) [(''Datum'', VStr ''12. 3. 2024''), (''Popis_hlavicka'', VStr ''SOME SHOP LTD 123456 45** **** 7890''), (''Protistrana'', VStr ''SOME SHOP LTD 123456 45** **** 7890''), (''Protiucet'', VNone), (''Karta'', VNone), (''Castka_CZK'', VNum (Finite (- 456))), (''Castka_raw'', VStr ''-456,00''), (''Datum_provedeni'', VNone), (''Kod_transakce'', VNone), (''Typ_transakce'', VNone), (''VS'', VNone), (''SS'', VNone), (''KS'', VNone), (''Zprava'', VNone), (''ATM_ID'', VNone), (''FX_mena'', VNone), (''FX_kurz'', VNone), (''FX_kurz_mena'', VNone), (''Doplnek'', VNone), (''Blok_text'', VNone), (''Karta_sit'', VNone), (''Mena_hlavicka'', VStr ''CZK'')] =
      Inr ([(''Datum'', VStr ''12. 3. 2024''), (''Popis_hlavicka'', VStr ''SOME SHOP LTD 123456 45** **** 7890''), (''Protistrana'', VStr ''SOME SHOP LTD 123456 45** **** 7890''), (''Protiucet'', VNone), (''Karta'', VNone), (''Castka_CZK'', VNum (Finite (- 456))), (''Castka_raw'', VStr ''-456,00''), (''Datum_provedeni'', VStr ''13. 3. 2024''), (''Kod_transakce'', VStr ''CODE''), (''Typ_transakce'', VStr ''PLATBA KARTOU''), (''VS'', VStr []), (''SS'', VStr []), (''KS'', VStr []), (''Zprava'', VNone), (''ATM_ID'', VNone), (''FX_mena'', VNone), (''FX_kurz'', VNone), (''FX_kurz_mena'', VNone), (''Doplnek'', VNone), (''Blok_text'', VNone), (''Karta_sit'', VNone), (''Mena_hlavicka'', VStr ''CZK'')], [])"
    by (simp add: walk_block_def simple_detail)
  show ?thesis
    by (simp add: process_block_def simple_header simple_seed fl wb finish_block_def
        simple_fx_default dict_pop_def del: join.simps find_label.simps)
qed

lemma simple_label: "is_label_line ''Datum provedeni Kod transakce Typ transakce VS SS KS''"
  by code_simp

text \<open>
  C2, as stated: for the header line of the scenario, a label line and the detail line, the
  record has the date \<open>12.3.2024\<close>, the counterparty \<open>SOME SHOP LTD\<close> and the card mask
  \<open>123456 45** **** 7890\<close>.  The program keeps the date token as written, finds no card
  mask (none of the three card patterns has six digits, a space and two digits before the
  asterisks), and so leaves the digits and asterisks in the counterparty.
\<close>

theorem simple_purchase_differs:
  "map_sum id
     (map_option (\<lambda>tx. (dict_get tx ''Datum'', dict_get tx ''Protistrana'', dict_get tx ''Karta'')))
     (process_block [''12. 3. 2024 SOME SHOP LTD 123456 45** **** 7890 -456,00 CZK'',
        ''Datum provedeni Kod transakce Typ transakce VS SS KS'',
        ''13. 3. 2024 CODE PLATBA KARTOU - - -'']) =
   Inr (Some (VStr ''12. 3. 2024'', VStr ''SOME SHOP LTD 123456 45** **** 7890'', VNone))"
  by (simp add: simple_record[OF simple_label] dict_get_def del: join.simps)

text \<open>
  C2, amended: for the header line of the scenario, any label line and the detail line, the
  record has the date \<open>12. 3. 2024\<close> as written, the counterparty
  \<open>SOME SHOP LTD 123456 45** **** 7890\<close>, no card mask, the amount \<open>-456\<close>, the execution
  date \<open>13. 3. 2024\<close> as written, the code \<open>CODE\<close>, the type \<open>PLATBA KARTOU\<close> and three
  empty symbols; the FX currency is the header's \<open>CZK\<close> and the audit text joins the three
  lines.
\<close>

theorem simple_purchase_record:
  "is_label_line lbl \<Longrightarrow>
   process_block [''12. 3. 2024 SOME SHOP LTD 123456 45** **** 7890 -456,00 CZK'', lbl, ''13. 3. 2024 CODE PLATBA KARTOU - - -''] =
     Inr (Some [(''Datum'', VStr ''12. 3. 2024''), (''Popis_hlavicka'', VStr ''SOME SHOP LTD 123456 45** **** 7890''), (''Protistrana'', VStr ''SOME SHOP LTD 123456 45** **** 7890''), (''Protiucet'', VNone), (''Karta'', VNone), (''Castka_CZK'', VNum (Finite (- 456))), (''Castka_raw'', VStr ''-456,00''), (''Datum_provedeni'', VStr ''13. 3. 2024''), (''Kod_transakce'', VStr ''CODE''), (''Typ_transakce'', VStr ''PLATBA KARTOU''), (''VS'', VStr []), (''SS'', VStr []), (''KS'', VStr []), (''Zprava'', VNone), (''ATM_ID'', VNone), (''FX_mena'', VStr ''CZK''), (''FX_kurz'', VNone), (''FX_kurz_mena'', VNone), (''Doplnek'', VNone), (''Blok_text'', VStr (join '' | '' [''12. 3. 2024 SOME SHOP LTD 123456 45** **** 7890 -456,00 CZK'', lbl, ''13. 3. 2024 CODE PLATBA KARTOU - - -''])), (''Karta_sit'', VNone)])"
  by (rule simple_record)

theorem simple_purchase_record_witness:
  "is_label_line ''Datum provedeni Kod transakce Typ transakce VS SS KS'' \<and>
   process_block [''12. 3. 2024 SOME SHOP LTD 123456 45** **** 7890 -456,00 CZK'',
      ''Datum provedeni Kod transakce Typ transakce VS SS KS'',
      ''13. 3. 2024 CODE PLATBA KARTOU - - -''] =
     Inr (Some [(''Datum'', VStr ''12. 3. 2024''), (''Popis_hlavicka'', VStr ''SOME SHOP LTD 123456 45** **** 7890''), (''Protistrana'', VStr ''SOME SHOP LTD 123456 45** **** 7890''), (''Protiucet'', VNone), (''Karta'', VNone), (''Castka_CZK'', VNum (Finite (- 456))), (''Castka_raw'', VStr ''-456,00''), (''Datum_provedeni'', VStr ''13. 3. 2024''), (''Kod_transakce'', VStr ''CODE''), (''Typ_transakce'', VStr ''PLATBA KARTOU''), (''VS'', VStr []), (''SS'', VStr []), (''KS'', VStr []), (''Zprava'', VNone), (''ATM_ID'', VNone), (''FX_mena'', VStr ''CZK''), (''FX_kurz'', VNone), (''FX_kurz_mena'', VNone), (''Doplnek'', VNone), (''Blok_text'', VStr (join '' | '' [''12. 3. 2024 SOME SHOP LTD 123456 45** **** 7890 -456,00 CZK'', ''Datum provedeni Kod transakce Typ transakce VS SS KS'', ''13. 3. 2024 CODE PLATBA KARTOU - - -''])), (''Karta_sit'', VNone)])"
  using simple_purchase_record[OF simple_label] simple_label by (intro conjI)

section \<open>Scenario: an FX transaction\<close>











section \<open>The amount parser\<close>

lemma startswith_single: "startswith (x # xs) [c] = (x = c)"
  by (simp add: startswith_def)

lemma replace_go_single:
  "replace_go [c] new 0 s = concat (map (\<lambda>x. if x = c then new else [x]) s)"
  by (induction s) (simp_all add: startswith_single)

lemma replace_single:
  "replace s [c] new = concat (map (\<lambda>x. if x = c then new else [x]) s)"
  by (simp add: replace_def replace_go_single)

lemma replace_remove: "replace s [c] [] = filter (\<lambda>x. x \<noteq> c) s"
  unfolding replace_single by (induction s) simp_all

lemma replace_char: "replace s [c] [d] = map (\<lambda>x. if x = c then d else x) s"
  unfolding replace_single by (induction s) simp_all

lemma contains_single: "contains s [c] = (c \<in> set s)"
  by (induction s) (auto simp: startswith_single)

lemma startswith_minus: "startswith s ''-'' = (s \<noteq> [] \<and> hd s = CHR ''-'')"
  by (cases s) (simp_all add: startswith_def)

lemma cz_amount_to_float_steps: "cz_amount_to_float text = parse_amount_all_minus text"
  unfolding cz_amount_to_float_def parse_amount_all_minus_def Let_def
  by (simp add: replace_remove replace_char contains_single startswith_minus
      option.map_sel split: option.splits)

text \<open>
  C6, as stated: only a leading minus sign is stripped, and a text that is not numeric after
  the steps gives null.  For \<open>5-\<close> the steps as stated leave \<open>5-\<close>, which is no number; the
  program removes every minus sign and returns 5.
\<close>

theorem amount_inner_minus:
  "cz_amount_to_float ''5-'' = Some (Finite 5) \<and> parse_amount_spec ''5-'' = None"
  by code_simp

text \<open>
  C6, amended: for every input string the amount parser strips the surrounding whitespace,
  remembers whether the text then starts with a minus sign, removes every minus sign, strips
  the surrounding whitespace again, removes spaces and no-break spaces, removes the dots
  when a comma is present, turns every comma into a decimal point, parses the result as a
  float, reapplies the sign, and returns null when the cleaned text is no float literal.
  So \<open>1 234,56\<close> gives 1234.56 and \<open>-12,00\<close> gives -12.
\<close>

theorem amount_steps:
  "cz_amount_to_float text = parse_amount_all_minus text \<and>
   cz_amount_to_float ''1 234,56'' = Some (Finite (123456 / 100)) \<and>
   cz_amount_to_float ''-12,00'' = Some (Finite (- 12)) \<and>
   cz_amount_to_float ''12,0x'' = None"
proof -
  have "cz_amount_to_float ''1 234,56'' = Some (Finite (123456 / 100))" by code_simp
  moreover have "cz_amount_to_float ''-12,00'' = Some (Finite (- 12))" by code_simp
  moreover have "cz_amount_to_float ''12,0x'' = None" by code_simp
  ultimately show ?thesis using cz_amount_to_float_steps by (intro conjI)
qed

theorem amount_steps_witness:
  "cz_amount_to_float ''- 1.234,50'' = parse_amount_all_minus ''- 1.234,50''"
  using amount_steps[of "''- 1.234,50''"] by (rule conjunct1)

end
